theory Spec2Isabelle
  imports Main "HOL-Library.Word"
begin

section \<open>The sector downloader (modules/renter/proto/downloader.go)\<close>

subsection \<open>Data\<close>

type_synonym byte = "8 word"

text \<open>\<open>crypto.Hash\<close>, \<open>types.Currency\<close> (a non-negative big integer),
  \<open>types.FileContractID\<close>, \<open>types.SiaPublicKey\<close>, \<open>crypto.SecretKey\<close> and
  \<open>types.Transaction\<close>. Only equality (and, for the currency, arithmetic) is used on them.\<close>

type_synonym Hash = "byte list"
type_synonym Currency = nat
type_synonym FileContractID = nat
type_synonym PublicKey = nat
type_synonym SecretKey = nat
type_synonym Transaction = nat

record FileContractRevision =
  NewRevisionNumber :: nat
  NewValidProofOutputs :: "Currency list"

record RenterContract =
  ID :: FileContractID
  HostPublicKey :: PublicKey
  LastRevision :: FileContractRevision
  LastRevisionTxn :: Transaction
  DownloadSpending :: Currency
  MerkleRoots :: "Hash list"
  SecretKey :: SecretKey

record HostDBEntry =
  DownloadBandwidthPrice :: Currency
  NetAddress :: string

record DownloadAction =
  MerkleRoot :: Hash
  Offset :: nat
  Length :: nat

text \<open>Errors. \<open>ext_error\<close> are the errors that come back from a collaborator (the
  connection, the host, the persistence hook); \<open>modules.ErrStopResponse\<close> is the one
  sentinel \<open>Sector\<close> compares against. \<open>error\<close> are the errors \<open>Sector\<close> and
  \<open>NewDownloader\<close> return: one constructor for each \<open>errors.New\<close> of the source
  (\<open>ErrCouldNotInitiateRPC e\<close> has the text of \<open>e\<close> appended), and \<open>Ext\<close> for a
  collaborator's error passed on unchanged.\<close>

datatype ext_error = ErrStopResponse | ExtErr string

datatype error =
    ErrContractNotPresent
  | ErrInsufficientFunds
  | ErrNotEnoughSectors
  | ErrNotEnoughSectorData
  | ErrBadSectorData
  | ErrInvalidContract
  | ErrCouldNotInitiateRPC ext_error
  | Ext ext_error

datatype duration =
  Hour | TwoMinutes | NegotiateSettingsTime | NegotiateDownloadTime | NegotiateRecentRevisionTime

text \<open>Every call that leaves the function is recorded, in order, in a trace.\<close>

datatype event =
    ExtendDeadline duration
  | StartDownload
  | is_Save: Save FileContractRevision "Hash list"
  | is_WriteObject: WriteObject "DownloadAction list"
  | is_NegotiateRevision: NegotiateRevision FileContractRevision SecretKey
  | ReadObject nat
  | IncrementFailedInteractions PublicKey
  | IncrementSuccessfulInteractions PublicKey
  | ConnClose
  | VerifySettings
  | WriteNegotiationStop
  | CloseChan
  | Dial string
  | WriteRPCDownload
  | VerifyRecentRevision

text \<open>A \<open>Downloader\<close>: the fields \<open>Sector\<close> reads. The objects it points to (the contract
  set, the host database, the connection, the channel) and its once guard are in \<open>world\<close>,
  which holds one session.\<close>

record Downloader =
  contractID :: FileContractID
  host :: HostDBEntry
  SaveFn :: "(FileContractRevision \<Rightarrow> Hash list \<Rightarrow> ext_error option) option"

record world =
  contracts :: "FileContractID \<rightharpoonup> RenterContract"
  successful :: "PublicKey \<Rightarrow> nat"
  failed :: "PublicKey \<Rightarrow> nat"
  conn_closed :: bool
  closeChan_closed :: bool
  once_done :: bool
  trace :: "event list"

text \<open>What the peer and the connection answer during one call of \<open>Sector\<close>.\<close>

record conn_io =
  startDownload :: "HostDBEntry \<Rightarrow> ext_error option"
  writeObject :: "DownloadAction list \<Rightarrow> ext_error option"
  negotiateRevision :: "FileContractRevision \<Rightarrow> SecretKey \<Rightarrow> Transaction \<times> ext_error option"
  readObject :: "nat \<Rightarrow> ext_error + byte list list"

text \<open>Constants and helpers of the repository that \<open>Sector\<close> and \<open>NewDownloader\<close>
  call and that are defined in other files; they are parameters. \<open>MulFloatLeeway x\<close>
  stands for \<open>x.MulFloat(1 + hostPriceLeeway)\<close>.\<close>

record deps =
  SectorSize :: nat
  merkleRoot :: "byte list \<Rightarrow> Hash"
  RenterFunds :: "RenterContract \<Rightarrow> Currency"
  MulFloatLeeway :: "Currency \<Rightarrow> Currency"
  newDownloadRevision :: "FileContractRevision \<Rightarrow> Currency \<Rightarrow> FileContractRevision"
  IsRevisionMismatch :: "error \<Rightarrow> bool"

text \<open>What the network and the peer answer while a session is set up.\<close>

record dial_io =
  dial :: "string \<Rightarrow> ext_error option"
  writeRPCDownload :: "ext_error option"
  verifyRecentRevision :: "RenterContract \<Rightarrow> ext_error option"

subsection \<open>Collaborators\<close>

definition emit :: "event \<Rightarrow> world \<Rightarrow> world" where
  "emit e w = w\<lparr>trace := trace w @ [e]\<rparr>"

definition extendDeadline :: "duration \<Rightarrow> world \<Rightarrow> world" where
  "extendDeadline t w = emit (ExtendDeadline t) w"

definition IncrementFailed :: "PublicKey \<Rightarrow> world \<Rightarrow> world" where
  "IncrementFailed k w =
     emit (IncrementFailedInteractions k) (w\<lparr>failed := (failed w)(k := Suc (failed w k))\<rparr>)"

definition IncrementSuccessful :: "PublicKey \<Rightarrow> world \<Rightarrow> world" where
  "IncrementSuccessful k w =
     emit (IncrementSuccessfulInteractions k)
       (w\<lparr>successful := (successful w)(k := Suc (successful w k))\<rparr>)"

definition connClose :: "world \<Rightarrow> world" where
  "connClose w = emit ConnClose (w\<lparr>conn_closed := True\<rparr>)"

text \<open>Modelled from the spec: the contract set (\<open>Acquire(id) -> (handle, ok)\<close>,
  \<open>Return(handle)\<close>) is defined in another file. \<open>Acquire\<close> and \<open>View\<close> look the
  identifier up; \<open>Return\<close> hands the (possibly revised) contract back under its own
  identifier. One call runs at a time here, so the locking is left out.\<close>

definition Acquire :: "FileContractID \<Rightarrow> world \<Rightarrow> RenterContract option" where
  "Acquire i w = contracts w i"

definition View :: "FileContractID \<Rightarrow> world \<Rightarrow> RenterContract option" where
  "View i w = contracts w i"

definition Return :: "RenterContract \<Rightarrow> world \<Rightarrow> world" where
  "Return c w = w\<lparr>contracts := (contracts w)(ID c \<mapsto> c)\<rparr>"

subsection \<open>Sector\<close>

type_synonym sector_result = "error + RenterContract \<times> byte list"

text \<open>Lines 104 to 124: read the payload, check it, update the local copy of the contract.
  The triple is the world, the variable \<open>contract\<close> as the deferred calls will see it,
  and the values returned.\<close>

definition Sector_read ::
  "deps \<Rightarrow> conn_io \<Rightarrow> Hash \<Rightarrow> RenterContract \<Rightarrow> FileContractRevision \<Rightarrow> Transaction
     \<Rightarrow> Currency \<Rightarrow> world \<Rightarrow> world \<times> RenterContract \<times> sector_result" where
  "Sector_read d io root contract revn signedTxn sectorPrice w =
     (let w1 = extendDeadline NegotiateDownloadTime w;
          w2 = emit (ReadObject (SectorSize d + 16)) w1
      in case readObject io (SectorSize d + 16) of
           Inl e \<Rightarrow> (w2, contract, Inl (Ext e))
         | Inr sectors \<Rightarrow>
             if length sectors \<noteq> 1 then (w2, contract, Inl ErrNotEnoughSectors)
             else let sector = sectors ! 0 in
               if length sector \<noteq> SectorSize d then (w2, contract, Inl ErrNotEnoughSectorData)
               else if merkleRoot d sector \<noteq> root then (w2, contract, Inl ErrBadSectorData)
               else let contract' = contract
                          \<lparr>LastRevision := revn, LastRevisionTxn := signedTxn,
                           DownloadSpending := DownloadSpending contract + sectorPrice\<rparr>
                    in (w2, contract', Inr (contract', sector)))"

text \<open>The deferred function of lines 84 to 90, run on the values being returned.\<close>

definition count_interaction ::
  "world \<times> RenterContract \<times> sector_result \<Rightarrow> world \<times> RenterContract \<times> sector_result" where
  "count_interaction r =
     (case r of (w, contract, res) \<Rightarrow>
        (case res of
           Inl e \<Rightarrow> (IncrementFailed (HostPublicKey contract) w, contract, res)
         | Inr v \<Rightarrow> (IncrementSuccessful (HostPublicKey contract) w, contract, res)))"

text \<open>The deferred \<open>hd.conn.Close()\<close> of line 99.\<close>

definition close_after ::
  "world \<times> RenterContract \<times> sector_result \<Rightarrow> world \<times> RenterContract \<times> sector_result" where
  "close_after r = (case r of (w, contract, res) \<Rightarrow> (connClose w, contract, res))"

text \<open>Lines 83 to 124. The deferred calls run last registered first: the connection is
  closed (when the host answered with a stop) before the interaction is counted.\<close>

definition Sector_negotiate ::
  "deps \<Rightarrow> conn_io \<Rightarrow> Hash \<Rightarrow> RenterContract \<Rightarrow> FileContractRevision \<Rightarrow> Currency
     \<Rightarrow> world \<Rightarrow> world \<times> RenterContract \<times> sector_result" where
  "Sector_negotiate d io root contract revn sectorPrice w =
     count_interaction
       (let w1 = extendDeadline TwoMinutes w;
            w2 = emit (NegotiateRevision revn (SecretKey contract)) w1
        in case negotiateRevision io revn (SecretKey contract) of
             (signedTxn, err) \<Rightarrow>
               if err = Some ErrStopResponse
               then close_after (Sector_read d io root contract revn signedTxn sectorPrice w2)
               else (case err of
                       Some e \<Rightarrow> (w2, contract, Inl (Ext e))
                     | None \<Rightarrow> Sector_read d io root contract revn signedTxn sectorPrice w2))"

text \<open>Lines 43 to 81, and then the rest.\<close>

definition Sector_session ::
  "deps \<Rightarrow> conn_io \<Rightarrow> Downloader \<Rightarrow> Hash \<Rightarrow> RenterContract \<Rightarrow> world
     \<Rightarrow> world \<times> RenterContract \<times> sector_result" where
  "Sector_session d io dl root contract w =
     (let sectorPrice = DownloadBandwidthPrice (host dl) * SectorSize d in
      if RenterFunds d contract < sectorPrice then (w, contract, Inl ErrInsufficientFunds)
      else
        let sectorPrice = MulFloatLeeway d sectorPrice;
            revn = newDownloadRevision d (LastRevision contract) sectorPrice;
            w1 = extendDeadline NegotiateSettingsTime w;
            w2 = emit StartDownload w1
        in case startDownload io (host dl) of
             Some e \<Rightarrow> (w2, contract, Inl (Ext e))
           | None \<Rightarrow>
               (case (case SaveFn dl of
                        None \<Rightarrow> (w2, None)
                      | Some f \<Rightarrow> (emit (Save revn (MerkleRoots contract)) w2,
                                   f revn (MerkleRoots contract))) of
                  (w3, Some e) \<Rightarrow> (w3, contract, Inl (Ext e))
                | (w3, None) \<Rightarrow>
                    let w4 = extendDeadline TwoMinutes w3;
                        actions = [\<lparr>MerkleRoot = root, Offset = 0, Length = SectorSize d\<rparr>];
                        w5 = emit (WriteObject actions) w4
                    in (case writeObject io actions of
                          Some e \<Rightarrow> (w5, contract, Inl (Ext e))
                        | None \<Rightarrow> Sector_negotiate d io root contract revn sectorPrice w5)))"

text \<open>The whole function: acquire the contract, run the session, and then the two
  deferred calls of lines 34 and 41: return the contract, reset the deadline.\<close>

definition Sector ::
  "deps \<Rightarrow> conn_io \<Rightarrow> Downloader \<Rightarrow> Hash \<Rightarrow> world \<Rightarrow> world \<times> sector_result" where
  "Sector d io dl root w =
     (case Acquire (contractID dl) w of
        None \<Rightarrow> (extendDeadline Hour w, Inl ErrContractNotPresent)
      | Some contract \<Rightarrow>
          (case Sector_session d io dl root contract w of
             (w', contract', res) \<Rightarrow> (extendDeadline Hour (Return contract' w'), res)))"

subsection \<open>Close\<close>

text \<open>\<open>conn.Close()\<close> of a \<open>net.Conn\<close>: an error, not a fault, on a connection that is
  closed already. \<open>Sector\<close> drops the error (\<open>defer hd.conn.Close()\<close>), \<open>Close\<close>
  returns it.\<close>

definition conn_Close :: "world \<Rightarrow> world \<times> ext_error option" where
  "conn_Close w =
     (connClose w,
      if conn_closed w then Some (ExtErr ''use of closed network connection'') else None)"

text \<open>\<open>shutdown\<close>, lines 129 to 135. The two errors are dropped. Closing a channel that
  is closed already is a run-time panic: the value \<open>None\<close>.\<close>

definition shutdown :: "world \<Rightarrow> world option" where
  "shutdown w =
     (let w1 = extendDeadline NegotiateSettingsTime w;
          w2 = emit VerifySettings w1;
          w3 = emit WriteNegotiationStop w2
      in if closeChan_closed w3 then None
         else Some (emit CloseChan (w3\<lparr>closeChan_closed := True\<rparr>)))"

text \<open>\<open>sync.Once.Do\<close>: the function runs on the first call only, and the guard is set
  when it has run.\<close>

definition once_Do :: "(world \<Rightarrow> world option) \<Rightarrow> world \<Rightarrow> world option" where
  "once_Do f w =
     (if once_done w then Some w
      else (case f w of None \<Rightarrow> None | Some w' \<Rightarrow> Some (w'\<lparr>once_done := True\<rparr>)))"

definition Close :: "world \<Rightarrow> (world \<times> ext_error option) option" where
  "Close w = (case once_Do shutdown w of None \<Rightarrow> None | Some w' \<Rightarrow> Some (conn_Close w'))"

text \<open>\<open>n\<close> calls of \<open>Close\<close>, one after the other, on the same \<open>Downloader\<close>.\<close>

fun Close_times :: "nat \<Rightarrow> world \<Rightarrow> world option" where
  "Close_times 0 w = Some w"
| "Close_times (Suc n) w =
     (case Close w of None \<Rightarrow> None | Some (w', e) \<Rightarrow> Close_times n w')"

subsection \<open>NewDownloader\<close>

text \<open>The deferred function of lines 161 to 168, run on the values being returned.\<close>

definition count_construction ::
  "deps \<Rightarrow> RenterContract \<Rightarrow> world \<times> (error + Downloader) \<Rightarrow> world \<times> (error + Downloader)" where
  "count_construction d contract r =
     (case r of (w, res) \<Rightarrow>
        (case res of
           Inl e \<Rightarrow>
             if \<not> IsRevisionMismatch d e then (IncrementFailed (HostPublicKey contract) w, res)
             else (w, res)
         | Inr v \<Rightarrow> (IncrementSuccessful (HostPublicKey contract) w, res)))"

text \<open>Lines 188 to 210, with the connection made: the request and the agreement on the
  most recent revision. On an error the connection and the channel are closed; in every
  case the deadline is reset on the way out.\<close>

definition NewDownloader_handshake ::
  "dial_io \<Rightarrow> HostDBEntry \<Rightarrow> FileContractID \<Rightarrow> RenterContract \<Rightarrow> world
     \<Rightarrow> world \<times> (error + Downloader)" where
  "NewDownloader_handshake io h i contract w =
     (let w1 = extendDeadline NegotiateRecentRevisionTime w;
          w2 = emit WriteRPCDownload w1
      in case writeRPCDownload io of
           Some e \<Rightarrow>
             (extendDeadline Hour
                (emit CloseChan ((connClose w2)\<lparr>closeChan_closed := True\<rparr>)),
              Inl (ErrCouldNotInitiateRPC e))
         | None \<Rightarrow>
             let w3 = emit VerifyRecentRevision w2
             in (case verifyRecentRevision io contract of
                   Some e \<Rightarrow>
                     (extendDeadline Hour
                        (emit CloseChan ((connClose w3)\<lparr>closeChan_closed := True\<rparr>)),
                      Inl (Ext e))
                 | None \<Rightarrow>
                     (extendDeadline Hour w3,
                      Inr \<lparr>contractID = i, host = h, SaveFn = None\<rparr>)))"

text \<open>The whole function. A successful dial gives a new connection, a new channel and an
  unused guard. The goroutine that waits for the cancel signal or the closing of the
  channel is left out: it closes the connection when the caller cancels, and nothing else.\<close>

definition NewDownloader ::
  "deps \<Rightarrow> dial_io \<Rightarrow> HostDBEntry \<Rightarrow> FileContractID \<Rightarrow> world
     \<Rightarrow> world \<times> (error + Downloader)" where
  "NewDownloader d io h i w =
     (case View i w of
        None \<Rightarrow> (w, Inl ErrInvalidContract)
      | Some contract \<Rightarrow>
          if length (NewValidProofOutputs (LastRevision contract)) \<noteq> 2
          then (w, Inl ErrInvalidContract)
          else
            let sectorPrice = DownloadBandwidthPrice h * SectorSize d in
            if RenterFunds d contract < sectorPrice then (w, Inl ErrInsufficientFunds)
            else
              count_construction d contract
                (let w1 = emit (Dial (NetAddress h)) w
                 in case dial io (NetAddress h) of
                      Some e \<Rightarrow> (w1, Inl (Ext e))
                    | None \<Rightarrow>
                        NewDownloader_handshake io h i contract
                          (w1\<lparr>conn_closed := False, closeChan_closed := False,
                              once_done := False\<rparr>)))"

text \<open>The events a call added to the trace.\<close>

definition events_since :: "world \<Rightarrow> world \<Rightarrow> event list" where
  "events_since w w' = drop (length (trace w)) (trace w')"

subsection \<open>Helpers defined in other files of the repository\<close>

text \<open>Modelled from the spec: \<open>RenterFunds\<close> is defined in another file. The spec's
  contract holds a current revision with the funds remaining and a proof-output structure;
  \<open>NewDownloader\<close> asks for two valid proof outputs. The renter's funds are the value of
  the first.\<close>

definition spec_RenterFunds :: "RenterContract \<Rightarrow> Currency" where
  "spec_RenterFunds c =
     (case NewValidProofOutputs (LastRevision c) of [] \<Rightarrow> 0 | renter # others \<Rightarrow> renter)"

text \<open>Modelled from the spec: \<open>newDownloadRevision\<close> is defined in another file. The
  spec says that the version of the revision strictly increases on every accepted update,
  that funds after a call are the funds before minus the price, and that funds never go
  negative: the price moves from the renter's output to the host's, the currency being a
  non-negative number.\<close>

definition spec_newDownloadRevision ::
  "FileContractRevision \<Rightarrow> Currency \<Rightarrow> FileContractRevision" where
  "spec_newDownloadRevision current cost =
     current
       \<lparr>NewRevisionNumber := NewRevisionNumber current + 1,
        NewValidProofOutputs :=
          (case NewValidProofOutputs current of
             [] \<Rightarrow> []
           | renter # others \<Rightarrow>
               (renter - cost) #
               (case others of [] \<Rightarrow> [] | hostv # rest \<Rightarrow> (hostv + cost) # rest))\<rparr>"

text \<open>Modelled from the spec: \<open>hostPriceLeeway\<close> and \<open>MulFloat\<close> are defined in other
  files. The spec's leeway is 0.2 percent; the result is a whole number of coins.\<close>

definition spec_MulFloatLeeway :: "Currency \<Rightarrow> Currency" where
  "spec_MulFloatLeeway x = x * 1002 div 1000"

subsection \<open>Sequences of calls\<close>

text \<open>The price a call of \<open>Sector\<close> charges (lines 44 and 50).\<close>

definition sectorPrice_of :: "deps \<Rightarrow> Downloader \<Rightarrow> Currency" where
  "sectorPrice_of d dl = MulFloatLeeway d (DownloadBandwidthPrice (host dl) * SectorSize d)"

text \<open>Calls of \<open>Sector\<close> one after the other, each with its own session, peer and root.\<close>

fun Sectors ::
  "deps \<Rightarrow> (conn_io \<times> Downloader \<times> Hash) list \<Rightarrow> world \<Rightarrow> world \<times> sector_result list" where
  "Sectors d [] w = (w, [])"
| "Sectors d ((io, dl, root) # calls) w =
     (case Sector d io dl root w of
        (w1, res) \<Rightarrow> (case Sectors d calls w1 of (w2, rs) \<Rightarrow> (w2, res # rs)))"

text \<open>Every contract of the set is filed under its own identifier.\<close>

definition contracts_keyed :: "world \<Rightarrow> bool" where
  "contracts_keyed w = (\<forall>j c. contracts w j = Some c \<longrightarrow> ID c = j)"

text \<open>The sum of the prices of the calls on contract \<open>i\<close> that returned no error.\<close>

fun paid :: "deps \<Rightarrow> FileContractID \<Rightarrow> (conn_io \<times> Downloader \<times> Hash) list
    \<Rightarrow> sector_result list \<Rightarrow> Currency" where
  "paid d i ((io, dl, root) # calls) (res # rs) =
     (if contractID dl = i \<and> isl res = False then sectorPrice_of d dl else 0) + paid d i calls rs"
| "paid d i calls rs = 0"

section \<open>Fetching and repairing a chunk (package renter)\<close>

subsection \<open>Data\<close>

text \<open>Go's \<open>int\<close>, which has 64 bits on the platforms the repository is built for:
  \<open>+\<close> and \<open>-\<close> wrap around, \<open>sint\<close> reads the signed value.\<close>

type_synonym go_int = "64 word"

text \<open>The fields of \<open>unfinishedChunk\<close> that the three functions use. Its declaration is
  in another file: the piece counts are Go \<open>int\<close>s; the offset is an \<open>int64\<close> (it is
  converted to \<open>uint64\<close> for the download), the length a \<open>uint64\<close>. A nil slice is
  the empty list.\<close>

record unfinishedChunk =
  localPath :: string
  length_chunk :: nat
  offset_chunk :: int
  minimumPieces :: go_int
  piecesNeeded :: go_int
  piecesCompleted :: go_int
  pieceUsage :: "bool list"
  logicalChunkData :: "byte list"
  physicalChunkData :: "byte list list"

text \<open>\<open>Extend e x\<close> is \<open>errors.Extend(e, x)\<close>: an error that holds both.\<close>

datatype repair_error =
    ErrInterrupted
  | ErrNotAvailableLocally
  | ErrFailedOpen
  | ErrFailedRead
  | OsErr string
  | DownloadErr string
  | EncodeErr string
  | Extend repair_error repair_error

fun contains_err :: "repair_error \<Rightarrow> repair_error \<Rightarrow> bool" where
  "contains_err (Extend a b) c = (Extend a b = c \<or> contains_err a c \<or> contains_err b c)"
| "contains_err e c = (e = c)"

type_synonym worker = nat
type_synonym file_handle = nat

datatype download_outcome = Stopped | Finished "byte list" "repair_error option"

datatype revent =
    is_NewSectionDownload: NewSectionDownload nat nat
  | OsOpen string
  | ReadAt file_handle nat int
  | Encode "byte list"
  | LogDebug repair_error
  | LogCritical
  | is_MemoryAvailableAdd: MemoryAvailableAdd nat
  | is_QueueChunkRepair: QueueChunkRepair worker unfinishedChunk

text \<open>The renter: the memory accountant and the log of calls that left the functions.\<close>

record renter =
  memoryAvailable :: nat
  rtrace :: "revent list"

text \<open>What the collaborators answer: the download subsystem (a finished download, or the
  stop channel firing first), the file system, the erasure coder, and the worker pool.\<close>

record renter_io =
  sectionDownload :: "nat \<Rightarrow> nat \<Rightarrow> download_outcome"
  osOpen :: "string \<Rightarrow> repair_error + file_handle"
  osReadAt :: "file_handle \<Rightarrow> nat \<Rightarrow> int \<Rightarrow> byte list \<times> repair_error option"
  erasureEncode :: "byte list \<Rightarrow> byte list list \<times> repair_error option"
  workerPool :: "worker list"

definition remit :: "revent \<Rightarrow> renter \<Rightarrow> renter" where
  "remit e r = r\<lparr>rtrace := rtrace r @ [e]\<rparr>"

definition revents_since :: "renter \<Rightarrow> renter \<Rightarrow> revent list" where
  "revents_since r r' = drop (length (rtrace r)) (rtrace r')"

text \<open>Modelled from the spec: \<open>managedMemoryAvailableAdd\<close> is defined in another file;
  the spec's memory accountant is a shared counter that is credited a byte count.\<close>

definition managedMemoryAvailableAdd :: "nat \<Rightarrow> renter \<Rightarrow> renter" where
  "managedMemoryAvailableAdd n r =
     remit (MemoryAvailableAdd n) (r\<lparr>memoryAvailable := memoryAvailable r + n\<rparr>)"

text \<open>Go's \<open>/\<close> on \<open>int\<close> truncates towards zero, and the one quotient that does not
  fit (the least value by \<open>-1\<close>) wraps around; \<open><\<close> compares the signed values.\<close>

definition trunc_quot :: "int \<Rightarrow> int \<Rightarrow> int" where
  "trunc_quot a b = sgn a * sgn b * (\<bar>a\<bar> div \<bar>b\<bar>)"

definition go_div :: "go_int \<Rightarrow> go_int \<Rightarrow> go_int" where
  "go_div a b = word_of_int (trunc_quot (sint a) (sint b))"

definition go_less :: "go_int \<Rightarrow> go_int \<Rightarrow> bool" where
  "go_less a b = (sint a < sint b)"

text \<open>The conversion \<open>uint64(chunk.offset)\<close> of an \<open>int64\<close>.\<close>

definition uint64_of :: "int \<Rightarrow> nat" where
  "uint64_of x = nat (x mod 2 ^ 64)"

subsection \<open>The functions\<close>

type_synonym fetch_result = "renter \<times> unfinishedChunk \<times> repair_error option"

definition managedDownloadLogicalChunkData ::
  "renter_io \<Rightarrow> unfinishedChunk \<Rightarrow> renter \<Rightarrow> fetch_result" where
  "managedDownloadLogicalChunkData io chunk r =
     (let r1 = remit (NewSectionDownload (uint64_of (offset_chunk chunk)) (length_chunk chunk)) r
      in case sectionDownload io (uint64_of (offset_chunk chunk)) (length_chunk chunk) of
           Stopped \<Rightarrow> (r1, chunk, Some ErrInterrupted)
         | Finished buf err \<Rightarrow> (r1, chunk\<lparr>logicalChunkData := buf\<rparr>, err))"

text \<open>\<open>ReadAt\<close> fills the buffer from its start with the bytes it could read.\<close>

definition fill_buffer :: "byte list \<Rightarrow> byte list \<Rightarrow> byte list" where
  "fill_buffer buf bytes = take (length buf) bytes @ drop (length bytes) buf"

definition managedFetchLogicalChunkData ::
  "renter_io \<Rightarrow> unfinishedChunk \<Rightarrow> bool \<Rightarrow> renter \<Rightarrow> fetch_result" where
  "managedFetchLogicalChunkData io chunk download r =
     (if localPath chunk = [] \<and> download then managedDownloadLogicalChunkData io chunk r
      else if localPath chunk = [] then (r, chunk, Some ErrNotAvailableLocally)
      else
        let chunk1 = chunk\<lparr>logicalChunkData := replicate (length_chunk chunk) 0\<rparr>;
            r1 = remit (OsOpen (localPath chunk1)) r
        in case osOpen io (localPath chunk1) of
             Inl err \<Rightarrow>
               if download
               then managedDownloadLogicalChunkData io (chunk1\<lparr>logicalChunkData := []\<rparr>) r1
               else (r1, chunk1, Some (Extend err ErrFailedOpen))
           | Inr osFile \<Rightarrow>
               let r2 = remit (ReadAt osFile (length (logicalChunkData chunk1))
                                 (offset_chunk chunk1)) r1
               in (case osReadAt io osFile (length (logicalChunkData chunk1))
                          (offset_chunk chunk1) of
                     (bytes, err) \<Rightarrow>
                       let chunk2 = chunk1
                             \<lparr>logicalChunkData := fill_buffer (logicalChunkData chunk1) bytes\<rparr>
                       in (case err of
                             Some e \<Rightarrow>
                               if download
                               then managedDownloadLogicalChunkData io
                                      (chunk2\<lparr>logicalChunkData := []\<rparr>) r2
                               else (r2, chunk2, Some (Extend e ErrFailedRead))
                           | None \<Rightarrow> (r2, chunk2, None))))"

text \<open>Lines 77 and 78: whether the repair may download.\<close>

definition repair_download :: "unfinishedChunk \<Rightarrow> bool" where
  "repair_download chunk =
     (let minMissingPiecesToDownload = go_div (piecesNeeded chunk - minimumPieces chunk) 4
      in go_less (piecesCompleted chunk + minMissingPiecesToDownload) (piecesNeeded chunk))"

text \<open>The loop of lines 107 to 112, from index \<open>i\<close> on. An index beyond the physical
  pieces is a run-time panic: \<open>None\<close>.\<close>

function release_used ::
  "nat \<Rightarrow> bool list \<Rightarrow> byte list list \<Rightarrow> nat \<Rightarrow> (byte list list \<times> nat) option" where
  "release_used i usage physical memoryFreed =
     (if i < length usage then
        (if usage ! i then
           (if i < length physical
            then release_used (i + 1) usage (physical[i := []])
                   (memoryFreed + length (physical ! i))
            else None)
         else release_used (i + 1) usage physical memoryFreed)
      else Some (physical, memoryFreed))"
  by pat_completeness auto
termination
  by (relation "measure (\<lambda>(i, usage, physical, memoryFreed). length usage - i)") auto

declare release_used.simps [simp del]

text \<open>Lines 116 to 121: the chunk goes to every worker of the pool.\<close>

fun distribute :: "worker list \<Rightarrow> unfinishedChunk \<Rightarrow> renter \<Rightarrow> renter" where
  "distribute [] chunk r = r"
| "distribute (worker # pool) chunk r = distribute pool chunk (remit (QueueChunkRepair worker chunk) r)"

text \<open>Lines 82 to 121, on what the fetch returned. \<open>None\<close> is a panic.\<close>

definition repair_fetched :: "renter_io \<Rightarrow> fetch_result \<Rightarrow> (renter \<times> unfinishedChunk) option" where
  "repair_fetched io fetched =
     (case fetched of
        (r1, chunk1, Some err) \<Rightarrow> Some (remit (LogDebug err) r1, chunk1)
      | (r1, chunk1, None) \<Rightarrow>
          let r2 = remit (Encode (logicalChunkData chunk1)) r1
          in (case erasureEncode io (logicalChunkData chunk1) of
                (pieces, err) \<Rightarrow>
                  let chunk2 = chunk1\<lparr>physicalChunkData := pieces\<rparr>
                  in (case err of
                        Some e \<Rightarrow> Some (remit (LogDebug e) r2, chunk2)
                      | None \<Rightarrow>
                          let memoryFreed = length (logicalChunkData chunk2);
                              chunk3 = chunk2\<lparr>logicalChunkData := []\<rparr>
                          in if length (physicalChunkData chunk3) < length (pieceUsage chunk3)
                             then Some (remit LogCritical r2, chunk3)
                             else (case release_used 0 (pieceUsage chunk3)
                                          (physicalChunkData chunk3) memoryFreed of
                                     None \<Rightarrow> None
                                   | Some (physical, memoryFreed') \<Rightarrow>
                                       let chunk4 = chunk3\<lparr>physicalChunkData := physical\<rparr>;
                                           r3 = managedMemoryAvailableAdd memoryFreed' r2
                                       in Some (distribute (workerPool io) chunk4 r3, chunk4)))))"

definition managedFetchAndRepairChunk ::
  "renter_io \<Rightarrow> unfinishedChunk \<Rightarrow> renter \<Rightarrow> (renter \<times> unfinishedChunk) option" where
  "managedFetchAndRepairChunk io chunk r =
     (let download = repair_download chunk
      in repair_fetched io (managedFetchLogicalChunkData io chunk download r))"

section \<open>Concrete sessions and chunks\<close>

text \<open>A contract with 5000 coins left, a host that asks 250 coins for a byte, sectors of
  four bytes and a checksum in place of the Merkle root: small enough to run.\<close>

definition example_deps :: deps where
  "example_deps =
     \<lparr>SectorSize = 4, merkleRoot = (\<lambda>bytes. [sum_list bytes]),
      RenterFunds = spec_RenterFunds, MulFloatLeeway = spec_MulFloatLeeway,
      newDownloadRevision = spec_newDownloadRevision,
      IsRevisionMismatch = (\<lambda>e. e = Ext (ExtErr ''revision mismatch''))\<rparr>"

definition example_revision :: FileContractRevision where
  "example_revision = \<lparr>NewRevisionNumber = 1, NewValidProofOutputs = [5000, 0]\<rparr>"

definition example_contract :: RenterContract where
  "example_contract =
     \<lparr>ID = 7, HostPublicKey = 3, LastRevision = example_revision, LastRevisionTxn = 0,
      DownloadSpending = 0, MerkleRoots = [[10]], SecretKey = 9\<rparr>"

definition example_host :: HostDBEntry where
  "example_host = \<lparr>DownloadBandwidthPrice = 250, NetAddress = ''host:9982''\<rparr>"

definition example_downloader :: Downloader where
  "example_downloader =
     \<lparr>contractID = 7, host = example_host, SaveFn = Some (\<lambda>revn roots. None)\<rparr>"

definition example_world :: world where
  "example_world =
     \<lparr>contracts = [7 \<mapsto> example_contract], successful = (\<lambda>k. 0), failed = (\<lambda>k. 0),
      conn_closed = False, closeChan_closed = False, once_done = False, trace = []\<rparr>"

definition example_sector :: "byte list" where
  "example_sector = [1, 2, 3, 4]"

definition example_root :: Hash where
  "example_root = [10]"

text \<open>A host that follows the protocol and sends the sector asked for.\<close>

definition honest_io :: conn_io where
  "honest_io =
     \<lparr>startDownload = (\<lambda>h. None), writeObject = (\<lambda>actions. None),
      negotiateRevision = (\<lambda>revn key. (11, None)),
      readObject = (\<lambda>maxLen. Inr [example_sector])\<rparr>"

text \<open>A host that sends two sectors instead of one, and one that sends a sector of the
  right size with other bytes.\<close>

definition two_blobs_io :: conn_io where
  "two_blobs_io = honest_io\<lparr>readObject := (\<lambda>maxLen. Inr [example_sector, example_sector])\<rparr>"

definition wrong_bytes_io :: conn_io where
  "wrong_bytes_io = honest_io\<lparr>readObject := (\<lambda>maxLen. Inr [[4, 3, 2, 2]])\<rparr>"

text \<open>A host whose price the contract cannot pay (8000 coins for a sector), and a contract
  that holds exactly the price of one sector before the leeway (1000 coins).\<close>

definition costly_downloader :: Downloader where
  "costly_downloader = example_downloader\<lparr>host := example_host\<lparr>DownloadBandwidthPrice := 2000\<rparr>\<rparr>"

definition tight_contract :: RenterContract where
  "tight_contract =
     example_contract\<lparr>LastRevision := \<lparr>NewRevisionNumber = 1, NewValidProofOutputs = [1000, 0]\<rparr>\<rparr>"

definition tight_world :: world where
  "tight_world = example_world\<lparr>contracts := [7 \<mapsto> tight_contract]\<rparr>"

text \<open>A session without a persistence hook, as \<open>NewDownloader\<close> returns it, and one whose
  hook fails.\<close>

definition plain_downloader :: Downloader where
  "plain_downloader = example_downloader\<lparr>SaveFn := None\<rparr>"

definition failing_save_downloader :: Downloader where
  "failing_save_downloader =
     example_downloader\<lparr>SaveFn := Some (\<lambda>revn roots. Some (ExtErr ''disk full''))\<rparr>"

text \<open>A network on which the session is set up, and a host that reports another revision
  than the renter's.\<close>

definition honest_dial_io :: dial_io where
  "honest_dial_io =
     \<lparr>dial = (\<lambda>address. None), writeRPCDownload = None,
      verifyRecentRevision = (\<lambda>contract. None)\<rparr>"

definition mismatch_dial_io :: dial_io where
  "mismatch_dial_io =
     honest_dial_io\<lparr>verifyRecentRevision := (\<lambda>contract. Some (ExtErr ''revision mismatch''))\<rparr>"

text \<open>A host that answers the revision of a download with that same error.\<close>

definition mismatch_io :: conn_io where
  "mismatch_io =
     honest_io\<lparr>negotiateRevision := (\<lambda>revn key. (0, Some (ExtErr ''revision mismatch'')))\<rparr>"

text \<open>Two downloads, one after the other, over the same session.\<close>

definition two_calls :: "(conn_io \<times> Downloader \<times> Hash) list" where
  "two_calls =
     [(honest_io, example_downloader, example_root), (honest_io, example_downloader, example_root)]"

text \<open>A chunk of four bytes of a file on disk, with ten pieces of which six rebuild the
  data and nine are stored; two piece slots, the first of them in use. A disk that reads,
  with an erasure coder that makes a single piece, and a disk on which the file is gone.\<close>

definition example_chunk :: unfinishedChunk where
  "example_chunk =
     \<lparr>localPath = ''/data/file'', length_chunk = 4, offset_chunk = 0, minimumPieces = 6,
      piecesNeeded = 10, piecesCompleted = 9, pieceUsage = [True, False],
      logicalChunkData = [], physicalChunkData = []\<rparr>"

definition example_renter :: renter where
  "example_renter = \<lparr>memoryAvailable = 100, rtrace = []\<rparr>"

definition disk_io :: renter_io where
  "disk_io =
     \<lparr>sectionDownload = (\<lambda>off len. Finished [9, 9, 9, 9] None),
      osOpen = (\<lambda>path. Inr 5),
      osReadAt = (\<lambda>osFile len off. ([1, 2, 3, 4], None)),
      erasureEncode = (\<lambda>bytes. ([bytes], None)),
      workerPool = [1, 2]\<rparr>"

definition broken_disk_io :: renter_io where
  "broken_disk_io = disk_io\<lparr>osOpen := (\<lambda>path. Inl (OsErr ''no such file''))\<rparr>"

section \<open>Properties of Sector\<close>

lemmas Sector_defs =
  Sector_def Acquire_def Return_def Sector_session_def Sector_negotiate_def Sector_read_def
  count_interaction_def close_after_def connClose_def IncrementFailed_def
  IncrementSuccessful_def extendDeadline_def emit_def Let_def

lemmas example_defs =
  example_deps_def example_world_def example_downloader_def example_host_def
  example_contract_def example_revision_def honest_io_def example_sector_def
  example_root_def spec_RenterFunds_def spec_MulFloatLeeway_def spec_newDownloadRevision_def

subsection \<open>The ways through Sector\<close>

text \<open>A call on a contract that is in the set leaves the function at one of ten places.
  For each, the rule gives what the collaborators answered, the values returned and the
  world afterwards. \<open>stop\<close> says whether the host answered the revision with
  \<open>ErrStopResponse\<close>, in which case the connection is closed on the way out.\<close>

lemma Sector_cases:
  fixes d io dl root w c
  defines "price0 \<equiv> DownloadBandwidthPrice (host dl) * SectorSize d"
  defines "price \<equiv> MulFloatLeeway d price0"
  defines "revn \<equiv> newDownloadRevision d (LastRevision c) price"
  defines "actions \<equiv> [\<lparr>MerkleRoot = root, Offset = 0, Length = SectorSize d\<rparr>]"
  defines "k \<equiv> HostPublicKey c"
  defines "saved \<equiv> (case SaveFn dl of None \<Rightarrow> [] | Some f \<Rightarrow> [Save revn (MerkleRoots c)])"
  defines "sent \<equiv> [ExtendDeadline NegotiateSettingsTime, StartDownload] @ saved @
                   [ExtendDeadline TwoMinutes, WriteObject actions]"
  defines "negotiated \<equiv> sent @ [ExtendDeadline TwoMinutes, NegotiateRevision revn (SecretKey c)]"
  defines "got \<equiv> negotiated @ [ExtendDeadline NegotiateDownloadTime, ReadObject (SectorSize d + 16)]"
  assumes run: "Sector d io dl root w = (w', res)"
    and acq: "contracts w (contractID dl) = Some c"
  obtains
    (insufficient) "RenterFunds d c < price0" "res = Inl ErrInsufficientFunds"
      "w' = w\<lparr>contracts := (contracts w)(ID c \<mapsto> c), trace := trace w @ [ExtendDeadline Hour]\<rparr>"
  | (start_failed) e where "\<not> RenterFunds d c < price0" "startDownload io (host dl) = Some e"
      "res = Inl (Ext e)"
      "w' = w\<lparr>contracts := (contracts w)(ID c \<mapsto> c),
               trace := trace w @ [ExtendDeadline NegotiateSettingsTime, StartDownload,
                                   ExtendDeadline Hour]\<rparr>"
  | (save_failed) f e where "\<not> RenterFunds d c < price0" "startDownload io (host dl) = None"
      "SaveFn dl = Some f" "f revn (MerkleRoots c) = Some e" "res = Inl (Ext e)"
      "w' = w\<lparr>contracts := (contracts w)(ID c \<mapsto> c),
               trace := trace w @ [ExtendDeadline NegotiateSettingsTime, StartDownload,
                                   Save revn (MerkleRoots c), ExtendDeadline Hour]\<rparr>"
  | (write_failed) e where "\<not> RenterFunds d c < price0" "startDownload io (host dl) = None"
      "\<forall>f. SaveFn dl = Some f \<longrightarrow> f revn (MerkleRoots c) = None"
      "writeObject io actions = Some e" "res = Inl (Ext e)"
      "w' = w\<lparr>contracts := (contracts w)(ID c \<mapsto> c),
               trace := trace w @ sent @ [ExtendDeadline Hour]\<rparr>"
  | (negotiate_failed) txn e where "\<not> RenterFunds d c < price0" "startDownload io (host dl) = None"
      "\<forall>f. SaveFn dl = Some f \<longrightarrow> f revn (MerkleRoots c) = None"
      "writeObject io actions = None"
      "negotiateRevision io revn (SecretKey c) = (txn, Some e)" "e \<noteq> ErrStopResponse"
      "res = Inl (Ext e)"
      "w' = w\<lparr>contracts := (contracts w)(ID c \<mapsto> c),
               failed := (failed w)(k := Suc (failed w k)),
               trace := trace w @ negotiated @
                  [IncrementFailedInteractions k, ExtendDeadline Hour]\<rparr>"
  | (read_failed) stop txn e where "\<not> RenterFunds d c < price0" "startDownload io (host dl) = None"
      "\<forall>f. SaveFn dl = Some f \<longrightarrow> f revn (MerkleRoots c) = None"
      "writeObject io actions = None"
      "negotiateRevision io revn (SecretKey c) =
         (txn, if stop then Some ErrStopResponse else None)"
      "readObject io (SectorSize d + 16) = Inl e" "res = Inl (Ext e)"
      "w' = w\<lparr>contracts := (contracts w)(ID c \<mapsto> c),
               failed := (failed w)(k := Suc (failed w k)),
               conn_closed := (stop \<or> conn_closed w),
               trace := trace w @ got @ (if stop then [ConnClose] else []) @
                  [IncrementFailedInteractions k, ExtendDeadline Hour]\<rparr>"
  | (wrong_count) stop txn sectors where "\<not> RenterFunds d c < price0"
      "startDownload io (host dl) = None"
      "\<forall>f. SaveFn dl = Some f \<longrightarrow> f revn (MerkleRoots c) = None"
      "writeObject io actions = None"
      "negotiateRevision io revn (SecretKey c) =
         (txn, if stop then Some ErrStopResponse else None)"
      "readObject io (SectorSize d + 16) = Inr sectors" "length sectors \<noteq> 1"
      "res = Inl ErrNotEnoughSectors"
      "w' = w\<lparr>contracts := (contracts w)(ID c \<mapsto> c),
               failed := (failed w)(k := Suc (failed w k)),
               conn_closed := (stop \<or> conn_closed w),
               trace := trace w @ got @ (if stop then [ConnClose] else []) @
                  [IncrementFailedInteractions k, ExtendDeadline Hour]\<rparr>"
  | (wrong_size) stop txn sector where "\<not> RenterFunds d c < price0"
      "startDownload io (host dl) = None"
      "\<forall>f. SaveFn dl = Some f \<longrightarrow> f revn (MerkleRoots c) = None"
      "writeObject io actions = None"
      "negotiateRevision io revn (SecretKey c) =
         (txn, if stop then Some ErrStopResponse else None)"
      "readObject io (SectorSize d + 16) = Inr [sector]" "length sector \<noteq> SectorSize d"
      "res = Inl ErrNotEnoughSectorData"
      "w' = w\<lparr>contracts := (contracts w)(ID c \<mapsto> c),
               failed := (failed w)(k := Suc (failed w k)),
               conn_closed := (stop \<or> conn_closed w),
               trace := trace w @ got @ (if stop then [ConnClose] else []) @
                  [IncrementFailedInteractions k, ExtendDeadline Hour]\<rparr>"
  | (wrong_hash) stop txn sector where "\<not> RenterFunds d c < price0"
      "startDownload io (host dl) = None"
      "\<forall>f. SaveFn dl = Some f \<longrightarrow> f revn (MerkleRoots c) = None"
      "writeObject io actions = None"
      "negotiateRevision io revn (SecretKey c) =
         (txn, if stop then Some ErrStopResponse else None)"
      "readObject io (SectorSize d + 16) = Inr [sector]" "length sector = SectorSize d"
      "merkleRoot d sector \<noteq> root" "res = Inl ErrBadSectorData"
      "w' = w\<lparr>contracts := (contracts w)(ID c \<mapsto> c),
               failed := (failed w)(k := Suc (failed w k)),
               conn_closed := (stop \<or> conn_closed w),
               trace := trace w @ got @ (if stop then [ConnClose] else []) @
                  [IncrementFailedInteractions k, ExtendDeadline Hour]\<rparr>"
  | (success) stop txn sector c' where "\<not> RenterFunds d c < price0"
      "startDownload io (host dl) = None"
      "\<forall>f. SaveFn dl = Some f \<longrightarrow> f revn (MerkleRoots c) = None"
      "writeObject io actions = None"
      "negotiateRevision io revn (SecretKey c) =
         (txn, if stop then Some ErrStopResponse else None)"
      "readObject io (SectorSize d + 16) = Inr [sector]" "length sector = SectorSize d"
      "merkleRoot d sector = root"
      "c' = c\<lparr>LastRevision := revn, LastRevisionTxn := txn,
                DownloadSpending := DownloadSpending c + price\<rparr>"
      "res = Inr (c', sector)"
      "w' = w\<lparr>contracts := (contracts w)(ID c \<mapsto> c'),
               successful := (successful w)(k := Suc (successful w k)),
               conn_closed := (stop \<or> conn_closed w),
               trace := trace w @ got @ (if stop then [ConnClose] else []) @
                  [IncrementSuccessfulInteractions k, ExtendDeadline Hour]\<rparr>"
proof -
  note defs = Sector_defs price0_def price_def revn_def actions_def k_def saved_def sent_def
    negotiated_def got_def
  show thesis
  proof (cases "RenterFunds d c < price0")
    case True
    show thesis
      by (rule insufficient[OF True]) (use run acq True in \<open>simp_all add: defs\<close>)
  next
    case nf: False
    show thesis
    proof (cases "startDownload io (host dl)")
      case (Some e)
      show thesis
        by (rule start_failed[OF nf Some]) (use run acq nf Some in \<open>simp_all add: defs\<close>)
    next
      case sd: None
      show thesis
      proof (cases "\<exists>f e. SaveFn dl = Some f \<and> f revn (MerkleRoots c) = Some e")
        case True
        then obtain f e where f: "SaveFn dl = Some f" and e: "f revn (MerkleRoots c) = Some e"
          by blast
        show thesis
          by (rule save_failed[OF nf sd f e])
            (use run acq nf sd f e in \<open>simp_all add: defs\<close>)
      next
        case False
        then have sv: "\<forall>f. SaveFn dl = Some f \<longrightarrow> f revn (MerkleRoots c) = None"
          by (metis option.exhaust)
        show thesis
        proof (cases "writeObject io actions")
          case (Some e)
          show thesis
            by (rule write_failed[OF nf sd sv Some])
              (use run acq nf sd sv Some in \<open>auto simp: defs split: option.splits\<close>)
        next
          case wr: None
          obtain txn err where n: "negotiateRevision io revn (SecretKey c) = (txn, err)"
            by (cases "negotiateRevision io revn (SecretKey c)")
          show thesis
          proof (cases "\<exists>e. err = Some e \<and> e \<noteq> ErrStopResponse")
            case True
            then obtain e where e: "err = Some e" "e \<noteq> ErrStopResponse"
              by blast
            show thesis
              by (rule negotiate_failed[OF nf sd sv wr n[unfolded e(1)] e(2)])
                (use run acq nf sd sv wr n e in \<open>auto simp: defs split: option.splits\<close>)
          next
            case False
            define stop where "stop = (err = Some ErrStopResponse)"
            from False have err: "err = (if stop then Some ErrStopResponse else None)"
              by (cases err) (auto simp: stop_def)
            note n' = n[unfolded err]
            show thesis
            proof (cases "readObject io (SectorSize d + 16)")
              case (Inl e)
              show thesis
                by (rule read_failed[OF nf sd sv wr n' Inl]; cases stop)
                  (use run acq nf sd sv wr n' Inl in \<open>auto simp: defs split: option.splits\<close>)
            next
              case rd: (Inr sectors)
              show thesis
              proof (cases "length sectors = 1")
                case False
                show thesis
                  by (rule wrong_count[OF nf sd sv wr n' rd False]; cases stop)
                    (use run acq nf sd sv wr n' rd False in
                      \<open>auto simp: defs split: option.splits\<close>)
              next
                case True
                then obtain sector where sectors: "sectors = [sector]"
                  by (cases sectors) auto
                note rd' = rd[unfolded sectors]
                show thesis
                proof (cases "length sector = SectorSize d")
                  case False
                  show thesis
                    by (rule wrong_size[OF nf sd sv wr n' rd' False]; cases stop)
                      (use run acq nf sd sv wr n' rd' False in
                        \<open>auto simp: defs split: option.splits\<close>)
                next
                  case len: True
                  show thesis
                  proof (cases "merkleRoot d sector = root")
                    case False
                    show thesis
                      by (rule wrong_hash[OF nf sd sv wr n' rd' len False]; cases stop)
                        (use run acq nf sd sv wr n' rd' len False in
                          \<open>auto simp: defs split: option.splits\<close>)
                  next
                    case True
                    show thesis
                      by (rule success[OF nf sd sv wr n' rd' len True refl]; cases stop)
                        (use run acq nf sd sv wr n' rd' len True in
                          \<open>auto simp: defs split: option.splits\<close>)
                  qed
                qed
              qed
            qed
          qed
        qed
      qed
    qed
  qed
qed


lemma Sector_absent:
  assumes "contracts w (contractID dl) = None"
  shows "Sector d io dl root w = (w\<lparr>trace := trace w @ [ExtendDeadline Hour]\<rparr>, Inl ErrContractNotPresent)"
  using assms by (simp add: Sector_defs)


subsection \<open>The payload\<close>

text \<open>C1. Whenever \<open>Sector\<close> returns without an error, the payload it returns has exactly
  \<open>SectorSize\<close> bytes and its Merkle root is the root that was asked for. (The result is
  either an error or a contract with a payload, so a payload that fails one of the checks
  never comes with a nil error.)\<close>

theorem Sector_payload_verified:
  assumes "snd (Sector d io dl root w) = Inr (c, p)"
  shows "length p = SectorSize d \<and> merkleRoot d p = root"
proof (cases "contracts w (contractID dl)")
  case None
  then show ?thesis
    using assms by (simp add: Sector_absent)
next
  case (Some c0)
  obtain w' where run: "Sector d io dl root w = (w', Inr (c, p))"
    using assms by (cases "Sector d io dl root w") simp
  from run Some show ?thesis
    by (cases rule: Sector_cases) simp_all
qed

lemma example_call_result:
  "snd (Sector example_deps honest_io example_downloader example_root example_world) =
     Inr (example_contract
            \<lparr>LastRevision := \<lparr>NewRevisionNumber = 2, NewValidProofOutputs = [3998, 1002]\<rparr>,
             LastRevisionTxn := 11, DownloadSpending := 1002\<rparr>,
          example_sector)"
  by (simp add: Sector_defs example_defs)

theorem Sector_payload_verified_witness:
  "snd (Sector example_deps honest_io example_downloader example_root example_world) =
     Inr (example_contract
            \<lparr>LastRevision := \<lparr>NewRevisionNumber = 2, NewValidProofOutputs = [3998, 1002]\<rparr>,
             LastRevisionTxn := 11, DownloadSpending := 1002\<rparr>,
          example_sector)
   \<and> length example_sector = SectorSize example_deps
   \<and> merkleRoot example_deps example_sector = example_root"
  using Sector_payload_verified [OF example_call_result] example_call_result
  by simp

text \<open>C2. A call that got as far as reading the payload, and to which the host sent a
  number of blobs other than one, or one blob of the wrong size, or one blob whose Merkle
  root is not the root asked for, returns the error of that case (three different errors of
  its own, none of them an error passed on from the connection). The contract set is as
  before the call, so the new revision is not the contract's \<open>LastRevision\<close> and its
  \<open>DownloadSpending\<close> and funds are unchanged; the host's failure counter is one higher
  and its success counter unchanged.\<close>

theorem Sector_bad_payload_not_committed:
  assumes run: "Sector d io dl root w = (w', res)"
    and acq: "contracts w (contractID dl) = Some c"
    and key: "ID c = contractID dl"
    and "ReadObject (SectorSize d + 16) \<in> set (events_since w w')"
    and "readObject io (SectorSize d + 16) = Inr sectors"
    and "length sectors \<noteq> 1 \<or> length (sectors ! 0) \<noteq> SectorSize d
           \<or> merkleRoot d (sectors ! 0) \<noteq> root"
  shows "res = Inl (if length sectors \<noteq> 1 then ErrNotEnoughSectors
                    else if length (sectors ! 0) \<noteq> SectorSize d then ErrNotEnoughSectorData
                    else ErrBadSectorData)
         \<and> contracts w' = contracts w
         \<and> failed w' = (failed w)(HostPublicKey c := Suc (failed w (HostPublicKey c)))
         \<and> successful w' = successful w"
  using run acq
proof (cases rule: Sector_cases)
  case (wrong_count stop txn sectors')
  then show ?thesis
    using assms by (simp add: map_upd_triv)
next
  case (wrong_size stop txn sector)
  then show ?thesis
    using assms by (simp add: map_upd_triv)
next
  case (wrong_hash stop txn sector)
  then show ?thesis
    using assms by (simp add: map_upd_triv)
qed (use assms in \<open>auto simp: events_since_def split: option.splits\<close>)

text \<open>Scenario C: two blobs instead of one.\<close>

theorem Sector_bad_payload_not_committed_witness:
  "snd (Sector example_deps two_blobs_io example_downloader example_root example_world) =
     Inl ErrNotEnoughSectors
   \<and> contracts (fst (Sector example_deps two_blobs_io example_downloader example_root
                        example_world)) 7 = Some example_contract
   \<and> failed (fst (Sector example_deps two_blobs_io example_downloader example_root
                     example_world)) 3 = 1"
  using Sector_bad_payload_not_committed
    [of example_deps two_blobs_io example_downloader example_root example_world
      "fst (Sector example_deps two_blobs_io example_downloader example_root example_world)"
      "snd (Sector example_deps two_blobs_io example_downloader example_root example_world)"
      example_contract "[example_sector, example_sector]"]
  by (simp add: Sector_defs events_since_def example_defs two_blobs_io_def)

text \<open>The same, read off the error returned: each of the three errors comes from its
  cause only, and with it the contract set is as before and the failure is counted.\<close>

lemma Sector_payload_errors:
  assumes run: "Sector d io dl root w = (w', Inl e)"
    and acq: "contracts w (contractID dl) = Some c"
    and key: "ID c = contractID dl"
    and e: "e = ErrNotEnoughSectors \<or> e = ErrNotEnoughSectorData \<or> e = ErrBadSectorData"
  shows "contracts w' = contracts w
         \<and> failed w' = (failed w)(HostPublicKey c := Suc (failed w (HostPublicKey c)))
         \<and> successful w' = successful w
         \<and> (\<exists>sectors. readObject io (SectorSize d + 16) = Inr sectors
               \<and> (e = ErrNotEnoughSectors \<longleftrightarrow> length sectors \<noteq> 1)
               \<and> (e = ErrNotEnoughSectorData \<longleftrightarrow>
                      length sectors = 1 \<and> length (sectors ! 0) \<noteq> SectorSize d)
               \<and> (e = ErrBadSectorData \<longleftrightarrow>
                      length sectors = 1 \<and> length (sectors ! 0) = SectorSize d
                      \<and> merkleRoot d (sectors ! 0) \<noteq> root))"
  using run acq
  by (cases rule: Sector_cases) (use acq key e in \<open>auto simp: map_upd_triv\<close>)

text \<open>Scenario D: one blob of the right size with the wrong hash.\<close>

lemma Sector_wrong_bytes:
  "snd (Sector example_deps wrong_bytes_io example_downloader example_root example_world) =
     Inl ErrBadSectorData
   \<and> contracts (fst (Sector example_deps wrong_bytes_io example_downloader example_root
                        example_world)) 7 = Some example_contract"
  by (simp add: Sector_defs example_defs wrong_bytes_io_def)

subsection \<open>The persistence hook\<close>

text \<open>A session without a hook, as \<open>NewDownloader\<close> returns it: the revision goes to the
  host and nothing is saved.\<close>

theorem Sector_without_hook_saves_nothing:
  "events_since example_world
     (fst (Sector example_deps honest_io plain_downloader example_root example_world)) =
   [ExtendDeadline NegotiateSettingsTime, StartDownload, ExtendDeadline TwoMinutes,
    WriteObject [\<lparr>MerkleRoot = example_root, Offset = 0, Length = 4\<rparr>],
    ExtendDeadline TwoMinutes,
    NegotiateRevision \<lparr>NewRevisionNumber = 2, NewValidProofOutputs = [3998, 1002]\<rparr> 9,
    ExtendDeadline NegotiateDownloadTime, ReadObject 20, IncrementSuccessfulInteractions 3,
    ExtendDeadline Hour]"
  by (simp add: Sector_defs events_since_def example_defs plain_downloader_def)

text \<open>C3, as the code has it. With a hook set: if the revision went to the host, then the
  hook ran exactly once in this call, on the list of Merkle roots of the contract as
  acquired, it returned no error, and neither the download action nor the revision was sent
  before it ran; and if the hook returned an error, \<open>Sector\<close> returns that error and sends
  neither the download action nor the revision. With no hook set nothing is saved.\<close>

theorem Sector_saves_before_sending:
  assumes run: "Sector d io dl root w = (w', res)"
    and acq: "contracts w (contractID dl) = Some c"
  shows "case SaveFn dl of
           None \<Rightarrow> (\<forall>e \<in> set (events_since w w'). \<not> is_Save e)
         | Some save \<Rightarrow>
             ((\<exists>e \<in> set (events_since w w'). is_NegotiateRevision e) \<longrightarrow>
                (\<exists>r'. filter is_Save (events_since w w') = [Save r' (MerkleRoots c)]
                      \<and> save r' (MerkleRoots c) = None)
                \<and> (\<forall>e \<in> set (takeWhile (\<lambda>e. \<not> is_Save e) (events_since w w')).
                      \<not> is_NegotiateRevision e \<and> \<not> is_WriteObject e))
             \<and> (\<forall>r' roots e.
                  Save r' roots \<in> set (events_since w w') \<and> save r' roots = Some e \<longrightarrow>
                  res = Inl (Ext e)
                  \<and> (\<forall>e \<in> set (events_since w w').
                        \<not> is_NegotiateRevision e \<and> \<not> is_WriteObject e))"
proof (cases "SaveFn dl")
  case None
  from run acq show ?thesis
    by (cases rule: Sector_cases) (use None in \<open>auto simp: events_since_def\<close>)
next
  case (Some save)
  from run acq show ?thesis
    by (cases rule: Sector_cases) (use Some in \<open>auto simp: events_since_def\<close>)
qed

theorem Sector_saves_before_sending_witness:
  "filter is_NegotiateRevision (events_since example_world
       (fst (Sector example_deps honest_io example_downloader example_root example_world))) =
     [NegotiateRevision \<lparr>NewRevisionNumber = 2, NewValidProofOutputs = [3998, 1002]\<rparr> 9]
   \<and> map (\<lambda>e. case e of Save r roots \<Rightarrow> roots | _ \<Rightarrow> [])
        (filter is_Save (events_since example_world
          (fst (Sector example_deps honest_io example_downloader example_root
                 example_world)))) =
       [MerkleRoots example_contract]
   \<and> snd (Sector example_deps honest_io failing_save_downloader example_root example_world) =
       Inl (Ext (ExtErr ''disk full''))
   \<and> filter (\<lambda>e. is_NegotiateRevision e \<or> is_WriteObject e) (events_since example_world
         (fst (Sector example_deps honest_io failing_save_downloader example_root
                example_world))) = []"
  using Sector_saves_before_sending
    [of example_deps honest_io example_downloader example_root example_world
      "fst (Sector example_deps honest_io example_downloader example_root example_world)"
      "snd (Sector example_deps honest_io example_downloader example_root example_world)"
      example_contract]
    Sector_saves_before_sending
    [of example_deps honest_io failing_save_downloader example_root example_world
      "fst (Sector example_deps honest_io failing_save_downloader example_root example_world)"
      "snd (Sector example_deps honest_io failing_save_downloader example_root example_world)"
      example_contract]
  by (simp add: Sector_defs events_since_def example_defs failing_save_downloader_def)

text \<open>What the hook is handed: the revision made by \<open>newDownloadRevision\<close> for this call
  (the one that is then sent to the host), with the roots of the contract as acquired.\<close>

lemma Sector_hook_arguments:
  assumes run: "Sector d io dl root w = (w', res)"
    and acq: "contracts w (contractID dl) = Some c"
    and "Save r roots \<in> set (events_since w w')"
  shows "r = newDownloadRevision d (LastRevision c) (sectorPrice_of d dl)
         \<and> roots = MerkleRoots c"
  using run acq
  by (cases rule: Sector_cases)
    (use assms(3) in \<open>auto simp: events_since_def sectorPrice_of_def split: option.splits\<close>)

subsection \<open>The reputation counters\<close>

text \<open>A call that fails at the funds check touches neither counter.\<close>

theorem Sector_early_failure_counts_nothing:
  "snd (Sector example_deps honest_io costly_downloader example_root example_world) =
     Inl ErrInsufficientFunds
   \<and> failed (fst (Sector example_deps honest_io costly_downloader example_root
                     example_world)) = failed example_world
   \<and> successful (fst (Sector example_deps honest_io costly_downloader example_root
                         example_world)) = successful example_world"
  by (simp add: Sector_defs example_defs costly_downloader_def)

text \<open>C4, as the code has it. The deferred update of the counters is registered once the
  download action has been written. A call that wrote it adds one to exactly one counter
  of the contract's host: the failure counter when it returns an error (whatever the
  error), the success counter when it returns none. A call that ends before (funds too
  low, the settings exchange, the hook or the write of the action failed) returns an error
  and leaves both counters as they were.\<close>

theorem Sector_counts_once_action_sent:
  assumes run: "Sector d io dl root w = (w', res)"
    and acq: "contracts w (contractID dl) = Some c"
  shows "if (\<exists>actions. WriteObject actions \<in> set (events_since w w')
                      \<and> writeObject io actions = None)
         then (if isl res
               then failed w' = (failed w)(HostPublicKey c := Suc (failed w (HostPublicKey c)))
                    \<and> successful w' = successful w
               else successful w' =
                      (successful w)(HostPublicKey c := Suc (successful w (HostPublicKey c)))
                    \<and> failed w' = failed w)
         else isl res \<and> failed w' = failed w \<and> successful w' = successful w"
  using run acq
  by (cases rule: Sector_cases) (auto simp: events_since_def split: option.splits)

theorem Sector_counts_once_action_sent_witness:
  "successful (fst (Sector example_deps honest_io example_downloader example_root
                      example_world)) 3 = 1
   \<and> failed (fst (Sector example_deps honest_io example_downloader example_root
                     example_world)) 3 = 0
   \<and> failed (fst (Sector example_deps wrong_bytes_io example_downloader example_root
                     example_world)) 3 = 1"
  using Sector_counts_once_action_sent
    [of example_deps honest_io example_downloader example_root example_world
      "fst (Sector example_deps honest_io example_downloader example_root example_world)"
      "snd (Sector example_deps honest_io example_downloader example_root example_world)"
      example_contract]
    Sector_counts_once_action_sent
    [of example_deps wrong_bytes_io example_downloader example_root example_world
      "fst (Sector example_deps wrong_bytes_io example_downloader example_root example_world)"
      "snd (Sector example_deps wrong_bytes_io example_downloader example_root example_world)"
      example_contract]
  by (simp add: Sector_defs events_since_def example_defs wrong_bytes_io_def)

text \<open>A call on a contract that is not in the set returns at once.\<close>

lemma Sector_absent_counts_nothing:
  assumes "contracts w (contractID dl) = None"
  shows "snd (Sector d io dl root w) = Inl ErrContractNotPresent
         \<and> failed (fst (Sector d io dl root w)) = failed w
         \<and> successful (fst (Sector d io dl root w)) = successful w"
  using assms by (simp add: Sector_absent)

subsection \<open>The funds check\<close>

text \<open>A contract with 1000 coins, a sector that costs 1000 coins before the leeway and
  1002 with it: the funds are below the inflated price, and the call goes through.\<close>

theorem Sector_proceeds_below_inflated_price:
  "RenterFunds example_deps tight_contract < sectorPrice_of example_deps example_downloader
   \<and> snd (Sector example_deps honest_io example_downloader example_root tight_world) =
       Inr (tight_contract
              \<lparr>LastRevision := \<lparr>NewRevisionNumber = 2, NewValidProofOutputs = [0, 1002]\<rparr>,
               LastRevisionTxn := 11, DownloadSpending := 1002\<rparr>,
            example_sector)"
  by (simp add: Sector_defs example_defs tight_world_def tight_contract_def sectorPrice_of_def)

text \<open>C5, as the code has it. The funds are compared with the price before the leeway,
  \<open>DownloadBandwidthPrice * SectorSize\<close>. Below it the call returns the insufficient-funds
  error and nothing went over the connection (the only event is the deadline reset on the
  way out). From it on the call goes past the check: it does not return that error, and it
  starts the settings exchange. The leeway is applied after the check.\<close>

theorem Sector_funds_check:
  assumes run: "Sector d io dl root w = (w', res)"
    and acq: "contracts w (contractID dl) = Some c"
  shows "if RenterFunds d c < DownloadBandwidthPrice (host dl) * SectorSize d
         then res = Inl ErrInsufficientFunds \<and> events_since w w' = [ExtendDeadline Hour]
         else res \<noteq> Inl ErrInsufficientFunds
              \<and> take 2 (events_since w w') =
                  [ExtendDeadline NegotiateSettingsTime, StartDownload]"
  using run acq
  by (cases rule: Sector_cases) (simp_all add: events_since_def)

theorem Sector_funds_check_witness:
  "snd (Sector example_deps honest_io costly_downloader example_root example_world) =
     Inl ErrInsufficientFunds
   \<and> events_since example_world
        (fst (Sector example_deps honest_io costly_downloader example_root example_world)) =
      [ExtendDeadline Hour]
   \<and> take 2 (events_since example_world
        (fst (Sector example_deps honest_io example_downloader example_root example_world))) =
      [ExtendDeadline NegotiateSettingsTime, StartDownload]"
  using Sector_funds_check
    [of example_deps honest_io costly_downloader example_root example_world
      "fst (Sector example_deps honest_io costly_downloader example_root example_world)"
      "snd (Sector example_deps honest_io costly_downloader example_root example_world)"
      example_contract]
    Sector_funds_check
    [of example_deps honest_io example_downloader example_root example_world
      "fst (Sector example_deps honest_io example_downloader example_root example_world)"
      "snd (Sector example_deps honest_io example_downloader example_root example_world)"
      example_contract]
  by (simp add: example_defs costly_downloader_def)

subsection \<open>Spending and funds over a sequence of calls\<close>

lemma Sector_contract_step:
  assumes keyed: "contracts_keyed w" and run: "Sector d io dl root w = (w', res)"
    and i: "contracts w i = Some c"
  shows "contracts_keyed w' \<and>
         (\<exists>c'. contracts w' i = Some c' \<and>
            (if contractID dl = i \<and> \<not> isl res
             then LastRevision c' = newDownloadRevision d (LastRevision c) (sectorPrice_of d dl)
                  \<and> DownloadSpending c' = DownloadSpending c + sectorPrice_of d dl
             else c' = c))"
proof (cases "contracts w (contractID dl)")
  case None
  then show ?thesis
    using keyed run i by (auto simp: Sector_absent contracts_keyed_def)
next
  case (Some c0)
  then have k0: "ID c0 = contractID dl"
    using keyed by (simp add: contracts_keyed_def)
  from run Some show ?thesis
    by (cases rule: Sector_cases)
      (use keyed i Some k0 in \<open>auto simp: contracts_keyed_def sectorPrice_of_def\<close>)
qed

lemma Sectors_account:
  assumes "contracts_keyed w" and "contracts w i = Some c" and "Sectors d calls w = (w', rs)"
    and "newDownloadRevision d = spec_newDownloadRevision"
  shows "contracts_keyed w' \<and> length rs = length calls \<and>
         (\<exists>c'. contracts w' i = Some c'
            \<and> DownloadSpending c' = DownloadSpending c + paid d i calls rs
            \<and> spec_RenterFunds c' = spec_RenterFunds c - paid d i calls rs)"
  using assms
proof (induction calls arbitrary: w c rs w')
  case Nil
  then show ?case by simp
next
  case (Cons call calls)
  obtain io dl root where call: "call = (io, dl, root)"
    by (cases call)
  obtain w1 res where s1: "Sector d io dl root w = (w1, res)"
    by (cases "Sector d io dl root w")
  obtain w2 rs' where s2: "Sectors d calls w1 = (w2, rs')"
    by (cases "Sectors d calls w1")
  from Cons.prems(3) call s1 s2 have w': "w' = w2" and rs: "rs = res # rs'"
    by simp_all
  from Sector_contract_step[OF Cons.prems(1) s1 Cons.prems(2)]
  obtain c1 where k1: "contracts_keyed w1" and c1: "contracts w1 i = Some c1"
    and upd: "if contractID dl = i \<and> \<not> isl res
             then LastRevision c1 = newDownloadRevision d (LastRevision c) (sectorPrice_of d dl)
                  \<and> DownloadSpending c1 = DownloadSpending c + sectorPrice_of d dl
             else c1 = c"
    by blast
  from Cons.IH[OF k1 c1 s2 Cons.prems(4)]
  obtain c' where k2: "contracts_keyed w2" and len: "length rs' = length calls"
    and c': "contracts w2 i = Some c'"
    and ds: "DownloadSpending c' = DownloadSpending c1 + paid d i calls rs'"
    and fu: "spec_RenterFunds c' = spec_RenterFunds c1 - paid d i calls rs'"
    by blast
  have f1: "spec_RenterFunds c1 = spec_RenterFunds c
              - (if contractID dl = i \<and> \<not> isl res then sectorPrice_of d dl else 0)"
    using upd Cons.prems(4)
    by (auto simp: spec_RenterFunds_def spec_newDownloadRevision_def split: list.splits)
  show ?case
    using k2 len c' ds fu f1 upd
    by (auto simp: w' rs call)
qed

lemma paid_all_successful:
  assumes "length rs = length calls"
    and "\<forall>call \<in> set calls. contractID (fst (snd call)) = i"
    and "\<forall>res \<in> set rs. \<not> isl res"
  shows "paid d i calls rs = (\<Sum>call\<leftarrow>calls. sectorPrice_of d (fst (snd call)))"
  using assms
proof (induction rs calls rule: list_induct2)
  case Nil
  then show ?case by simp
next
  case (Cons res rs call calls)
  then show ?case
    by (cases call) auto
qed

text \<open>One download on the contract with 1000 coins: the call returns no error, the price
  is 1002 coins, and the funds afterwards are 0 coins, not 1000 - 1002.\<close>

theorem Sectors_funds_do_not_cover_price:
  "snd (Sectors example_deps [(honest_io, example_downloader, example_root)] tight_world) =
     [Inr (tight_contract
             \<lparr>LastRevision := \<lparr>NewRevisionNumber = 2, NewValidProofOutputs = [0, 1002]\<rparr>,
              LastRevisionTxn := 11, DownloadSpending := 1002\<rparr>,
           example_sector)]
   \<and> int (RenterFunds example_deps
            (tight_contract
               \<lparr>LastRevision := \<lparr>NewRevisionNumber = 2, NewValidProofOutputs = [0, 1002]\<rparr>,
                LastRevisionTxn := 11, DownloadSpending := 1002\<rparr>)) \<noteq>
       int (RenterFunds example_deps tight_contract)
         - int (sectorPrice_of example_deps example_downloader)"
  by (simp add: Sector_defs example_defs tight_world_def tight_contract_def sectorPrice_of_def)

text \<open>C6, as the code has it, with the revision made as the spec describes it. Over any
  sequence of calls on a set in which every contract is filed under its identifier, the
  \<open>DownloadSpending\<close> of contract \<open>i\<close> grows by exactly the prices of the calls on \<open>i\<close>
  that returned no error, so it never decreases; when those prices together do not exceed
  the funds before the sequence, the funds afterwards are the funds before minus their sum;
  and when all calls are on \<open>i\<close> and none returned an error, that sum is the sum of the
  prices of all the calls, each \<open>DownloadBandwidthPrice * SectorSize\<close> with the leeway.\<close>

theorem Sectors_spending_and_funds:
  assumes "contracts_keyed w" and "contracts w i = Some c" and "Sectors d calls w = (w', rs)"
    and "RenterFunds d = spec_RenterFunds"
    and "newDownloadRevision d = spec_newDownloadRevision"
  shows "\<exists>c'. contracts w' i = Some c'
           \<and> DownloadSpending c' = DownloadSpending c + paid d i calls rs
           \<and> DownloadSpending c \<le> DownloadSpending c'
           \<and> (paid d i calls rs \<le> RenterFunds d c \<longrightarrow>
                int (RenterFunds d c') = int (RenterFunds d c) - int (paid d i calls rs))
           \<and> ((\<forall>call \<in> set calls. contractID (fst (snd call)) = i)
                \<and> (\<forall>res \<in> set rs. \<not> isl res) \<longrightarrow>
                paid d i calls rs = (\<Sum>call\<leftarrow>calls. sectorPrice_of d (fst (snd call))))"
proof -
  from Sectors_account[OF assms(1,2,3,5)]
  obtain c' where len: "length rs = length calls" and c': "contracts w' i = Some c'"
    and ds: "DownloadSpending c' = DownloadSpending c + paid d i calls rs"
    and fu: "spec_RenterFunds c' = spec_RenterFunds c - paid d i calls rs"
    by blast
  have "paid d i calls rs \<le> RenterFunds d c \<longrightarrow>
          int (RenterFunds d c') = int (RenterFunds d c) - int (paid d i calls rs)"
    using fu assms(4) by simp
  moreover have "(\<forall>call \<in> set calls. contractID (fst (snd call)) = i)
                \<and> (\<forall>res \<in> set rs. \<not> isl res) \<longrightarrow>
                paid d i calls rs = (\<Sum>call\<leftarrow>calls. sectorPrice_of d (fst (snd call)))"
    using paid_all_successful[OF len] by blast
  ultimately show ?thesis
    using c' ds by simp
qed

lemma two_calls_result:
  "snd (Sectors example_deps two_calls example_world) =
     [Inr (example_contract
             \<lparr>LastRevision := \<lparr>NewRevisionNumber = 2, NewValidProofOutputs = [3998, 1002]\<rparr>,
              LastRevisionTxn := 11, DownloadSpending := 1002\<rparr>,
           example_sector),
      Inr (example_contract
             \<lparr>LastRevision := \<lparr>NewRevisionNumber = 3, NewValidProofOutputs = [2996, 2004]\<rparr>,
              LastRevisionTxn := 11, DownloadSpending := 2004\<rparr>,
           example_sector)]"
  by (simp add: two_calls_def Sector_defs example_defs)

theorem Sectors_spending_and_funds_witness:
  "\<exists>c'. contracts (fst (Sectors example_deps two_calls example_world)) 7 = Some c'
      \<and> DownloadSpending c' = 2004
      \<and> int (RenterFunds example_deps c') = 5000 - 2004"
proof -
  have keyed: "contracts_keyed example_world"
    by (simp add: contracts_keyed_def example_world_def example_contract_def)
  have acq: "contracts example_world 7 = Some example_contract"
    by (simp add: example_world_def)
  have run: "Sectors example_deps two_calls example_world =
      (fst (Sectors example_deps two_calls example_world),
       snd (Sectors example_deps two_calls example_world))"
    by simp
  have funds: "RenterFunds example_deps = spec_RenterFunds"
    and revision: "newDownloadRevision example_deps = spec_newDownloadRevision"
    by (simp_all add: example_deps_def)
  have paid: "paid example_deps 7 two_calls (snd (Sectors example_deps two_calls example_world))
      = 2004"
    unfolding two_calls_result
    by (simp add: two_calls_def sectorPrice_of_def example_defs)
  have before: "RenterFunds example_deps example_contract = 5000"
    "DownloadSpending example_contract = 0"
    by (simp_all add: example_defs)
  show ?thesis
    using Sectors_spending_and_funds[OF keyed acq run funds revision]
    by (auto simp: paid before)
qed

section \<open>Properties of Close\<close>

lemmas Close_defs = Close_def once_Do_def shutdown_def conn_Close_def connClose_def
  extendDeadline_def emit_def Let_def

lemma Close_first:
  assumes "\<not> once_done w" and "\<not> closeChan_closed w"
  shows "Close w =
     Some (w\<lparr>conn_closed := True, closeChan_closed := True, once_done := True,
              trace := trace w @ [ExtendDeadline NegotiateSettingsTime, VerifySettings,
                                  WriteNegotiationStop, CloseChan, ConnClose]\<rparr>,
           if conn_closed w then Some (ExtErr ''use of closed network connection'') else None)"
  using assms by (simp add: Close_defs)

lemma Close_again:
  assumes "once_done w"
  shows "Close w =
     Some (w\<lparr>conn_closed := True, trace := trace w @ [ConnClose]\<rparr>,
           if conn_closed w then Some (ExtErr ''use of closed network connection'') else None)"
  using assms by (simp add: Close_defs)

lemma Close_times_again:
  assumes "once_done w"
  shows "\<exists>w'. Close_times n w = Some w' \<and> trace w' = trace w @ replicate n ConnClose
     \<and> once_done w'"
  using assms
proof (induction n arbitrary: w)
  case 0
  then show ?case by simp
next
  case (Suc n)
  let ?w1 = "w\<lparr>conn_closed := True, trace := trace w @ [ConnClose]\<rparr>"
  from Suc.prems have "once_done ?w1" by simp
  from Suc.IH[OF this] obtain w' where "Close_times n ?w1 = Some w'"
    "trace w' = trace ?w1 @ replicate n ConnClose" "once_done w'"
    by blast
  then show ?case
    using Suc.prems by (simp add: Close_again replicate_app_Cons_same)
qed

text \<open>The guard is used once \<open>Close\<close> has returned, so the channel is never closed a
  second time; \<open>Sector\<close> touches neither the guard nor the channel.\<close>

lemma Close_uses_guard:
  assumes "closeChan_closed w \<longrightarrow> once_done w" and "Close w = Some (w', e)"
  shows "once_done w'"
proof (cases "once_done w")
  case True
  with assms show ?thesis
    by (auto simp: Close_again)
next
  case False
  with assms show ?thesis
    by (auto simp: Close_first)
qed

lemma Sector_keeps_guard:
  assumes "Sector d io dl root w = (w', res)"
  shows "once_done w' = once_done w \<and> closeChan_closed w' = closeChan_closed w"
proof (cases "contracts w (contractID dl)")
  case None
  with assms show ?thesis
    by (auto simp: Sector_absent)
next
  case (Some c)
  with assms show ?thesis
    by (cases rule: Sector_cases) simp_all
qed

lemma Close_times_events:
  assumes "closeChan_closed w \<longrightarrow> once_done w"
  shows "\<exists>w'. Close_times n w = Some w'
           \<and> events_since w w' =
               (if once_done w \<or> n = 0 then []
                else [ExtendDeadline NegotiateSettingsTime, VerifySettings,
                      WriteNegotiationStop, CloseChan])
               @ replicate n ConnClose"
proof (cases "once_done w \<or> n = 0")
  case True
  then show ?thesis
  proof
    assume "once_done w"
    from Close_times_again[OF this, of n] show ?thesis
      using \<open>once_done w\<close> by (auto simp: events_since_def count_list_append)
  next
    assume "n = 0"
    then show ?thesis by (simp add: events_since_def)
  qed
next
  case False
  then obtain m where n: "n = Suc m" and fresh: "\<not> once_done w" "\<not> closeChan_closed w"
    using assms by (cases n) auto
  let ?w1 = "w\<lparr>conn_closed := True, closeChan_closed := True, once_done := True,
              trace := trace w @ [ExtendDeadline NegotiateSettingsTime, VerifySettings,
                                  WriteNegotiationStop, CloseChan, ConnClose]\<rparr>"
  have "once_done ?w1" by simp
  from Close_times_again[OF this, of m] obtain w' where
    w': "Close_times m ?w1 = Some w'" "trace w' = trace ?w1 @ replicate m ConnClose"
    by blast
  then show ?thesis
    using fresh n by (simp add: Close_first events_since_def replicate_app_Cons_same)
qed

lemma Close_times_never_faults:
  assumes "closeChan_closed w \<longrightarrow> once_done w"
  shows "\<exists>w'. Close_times n w = Some w'
           \<and> count_list (events_since w w') CloseChan \<le> 1
           \<and> count_list (events_since w w') VerifySettings \<le> 1
           \<and> count_list (events_since w w') WriteNegotiationStop \<le> 1"
proof -
  from Close_times_events[OF assms, of n] obtain w' where
    "Close_times n w = Some w'"
    "events_since w w' =
       (if once_done w \<or> n = 0 then []
        else [ExtendDeadline NegotiateSettingsTime, VerifySettings,
              WriteNegotiationStop, CloseChan])
       @ replicate n ConnClose"
    by blast
  then show ?thesis
    by (auto simp: count_list_append)
qed

text \<open>C9. \<open>Close\<close> called any number of times on a \<open>Downloader\<close> whose channel is open
  unless its guard is used (as \<open>NewDownloader\<close> returns it, and as \<open>Sector\<close> and
  \<open>Close\<close> leave it) never faults, and the events of \<open>shutdown\<close> (the settings round
  trip, the stop message, the closing of the channel) occur once if the guard was unused and
  there was a call, and not at all otherwise; every call closes the connection again.\<close>

theorem Close_idempotent:
  assumes "closeChan_closed w \<longrightarrow> once_done w"
  shows "\<exists>w'. Close_times n w = Some w'
           \<and> events_since w w' =
               (if once_done w \<or> n = 0 then []
                else [ExtendDeadline NegotiateSettingsTime, VerifySettings,
                      WriteNegotiationStop, CloseChan])
               @ replicate n ConnClose
           \<and> count_list (events_since w w') CloseChan \<le> 1
           \<and> count_list (events_since w w') VerifySettings \<le> 1
           \<and> count_list (events_since w w') WriteNegotiationStop \<le> 1"
proof -
  from Close_times_events[OF assms, of n] obtain w' where
    "Close_times n w = Some w'"
    "events_since w w' =
       (if once_done w \<or> n = 0 then []
        else [ExtendDeadline NegotiateSettingsTime, VerifySettings,
              WriteNegotiationStop, CloseChan])
       @ replicate n ConnClose"
    by blast
  then show ?thesis
    by (auto simp: count_list_append)
qed

theorem Close_idempotent_witness:
  "\<exists>w'. Close_times 3 example_world = Some w'
      \<and> events_since example_world w' =
          [ExtendDeadline NegotiateSettingsTime, VerifySettings, WriteNegotiationStop,
           CloseChan, ConnClose, ConnClose, ConnClose]"
proof -
  have "closeChan_closed example_world \<longrightarrow> once_done example_world"
    by (simp add: example_world_def)
  from Close_idempotent[OF this, of 3] show ?thesis
    by (auto simp: example_world_def numeral_3_eq_3)
qed


section \<open>Properties of NewDownloader\<close>

lemmas NewDownloader_defs =
  NewDownloader_def NewDownloader_handshake_def View_def count_construction_def connClose_def
  IncrementFailed_def IncrementSuccessful_def extendDeadline_def emit_def Let_def

text \<open>A session that \<open>NewDownloader\<close> returns has no persistence hook, an open
  connection, an open channel and an unused guard.\<close>

lemma NewDownloader_fresh:
  assumes "NewDownloader d io h i w = (w', Inr dl)"
  shows "dl = \<lparr>contractID = i, host = h, SaveFn = None\<rparr>
         \<and> \<not> conn_closed w' \<and> \<not> closeChan_closed w' \<and> \<not> once_done w'"
  using assms
  by (auto simp: NewDownloader_defs split: option.splits if_splits)

text \<open>In \<open>NewDownloader\<close> an error that is a revision mismatch leaves both counters as
  they were; any other error after the two checks of the contract adds one to the failure
  counter.\<close>

lemma NewDownloader_mismatch_exempt:
  assumes "NewDownloader d io h i w = (w', Inl e)" and "IsRevisionMismatch d e"
  shows "failed w' = failed w \<and> successful w' = successful w"
  using assms
  by (auto simp: NewDownloader_defs split: option.splits if_splits)

lemma NewDownloader_mismatch_example:
  "snd (NewDownloader example_deps mismatch_dial_io example_host 7 example_world) =
     Inl (Ext (ExtErr ''revision mismatch''))
   \<and> failed (fst (NewDownloader example_deps mismatch_dial_io example_host 7 example_world)) 3
       = 0"
  by (simp add: NewDownloader_defs example_defs mismatch_dial_io_def honest_dial_io_def)

text \<open>\<open>Sector\<close> does not look at the kind of the error: the same error from the host,
  in answer to the revision of a download, adds one to the failure counter.\<close>

lemma Sector_counts_mismatch:
  "snd (Sector example_deps mismatch_io example_downloader example_root example_world) =
     Inl (Ext (ExtErr ''revision mismatch''))
   \<and> IsRevisionMismatch example_deps (Ext (ExtErr ''revision mismatch''))
   \<and> failed (fst (Sector example_deps mismatch_io example_downloader example_root
                     example_world)) 3 = 1"
  by (simp add: Sector_defs example_defs mismatch_io_def)

text \<open>\<open>Close\<close> on a session fresh from \<open>NewDownloader\<close>, any number of times.\<close>

lemma Close_after_NewDownloader:
  assumes "NewDownloader d io h i w = (w', Inr dl)"
  shows "\<exists>w''. Close_times n w' = Some w''
           \<and> count_list (events_since w' w'') CloseChan \<le> 1"
proof -
  from NewDownloader_fresh[OF assms] have "closeChan_closed w' \<longrightarrow> once_done w'"
    by simp
  from Close_times_never_faults[OF this, of n] show ?thesis
    by blast
qed

section \<open>Properties of the chunk repair\<close>

lemmas renter_example_defs = example_chunk_def example_renter_def disk_io_def broken_disk_io_def

lemmas repair_defs = managedFetchAndRepairChunk_def repair_fetched_def repair_download_def
  managedFetchLogicalChunkData_def managedDownloadLogicalChunkData_def remit_def
  managedMemoryAvailableAdd_def go_div_def go_less_def trunc_quot_def uint64_of_def
  fill_buffer_def revents_since_def Let_def eval_nat_numeral

subsection \<open>Fetching the logical data\<close>

text \<open>The ways through \<open>managedDownloadLogicalChunkData\<close> and
  \<open>managedFetchLogicalChunkData\<close>.\<close>

lemma download_cases:
  assumes "managedDownloadLogicalChunkData io chunk r = (r', chunk', res)"
  obtains
    (stopped) "sectionDownload io (uint64_of (offset_chunk chunk)) (length_chunk chunk) = Stopped"
      "res = Some ErrInterrupted" "chunk' = chunk"
      "r' = r\<lparr>rtrace := rtrace r @
              [NewSectionDownload (uint64_of (offset_chunk chunk)) (length_chunk chunk)]\<rparr>"
  | (finished) buf where
      "sectionDownload io (uint64_of (offset_chunk chunk)) (length_chunk chunk) = Finished buf res"
      "chunk' = chunk\<lparr>logicalChunkData := buf\<rparr>"
      "r' = r\<lparr>rtrace := rtrace r @
              [NewSectionDownload (uint64_of (offset_chunk chunk)) (length_chunk chunk)]\<rparr>"
  using assms
  by (cases "sectionDownload io (uint64_of (offset_chunk chunk)) (length_chunk chunk)")
    (auto simp: managedDownloadLogicalChunkData_def remit_def Let_def)

lemma download_frame:
  assumes "managedDownloadLogicalChunkData io chunk r = (r', chunk', res)"
  shows "memoryAvailable r' = memoryAvailable r \<and> pieceUsage chunk' = pieceUsage chunk
       \<and> rtrace r' = rtrace r @
            [NewSectionDownload (uint64_of (offset_chunk chunk)) (length_chunk chunk)]"
  using assms by (cases rule: download_cases) simp_all

lemma fetch_cases:
  fixes chunk :: unfinishedChunk
  defines "buffer \<equiv> replicate (length_chunk chunk) (0 :: byte)"
  assumes run: "managedFetchLogicalChunkData io chunk download r = (r', chunk', res)"
  obtains
    (no_path_download) "localPath chunk = []" "download"
      "managedDownloadLogicalChunkData io chunk r = (r', chunk', res)"
  | (no_path) "localPath chunk = []" "\<not> download" "res = Some ErrNotAvailableLocally"
      "chunk' = chunk" "r' = r"
  | (open_failed_download) e where "localPath chunk \<noteq> []" "download"
      "osOpen io (localPath chunk) = Inl e"
      "managedDownloadLogicalChunkData io (chunk\<lparr>logicalChunkData := []\<rparr>)
         (r\<lparr>rtrace := rtrace r @ [OsOpen (localPath chunk)]\<rparr>) = (r', chunk', res)"
  | (open_failed) e where "localPath chunk \<noteq> []" "\<not> download"
      "osOpen io (localPath chunk) = Inl e" "res = Some (Extend e ErrFailedOpen)"
      "chunk' = chunk\<lparr>logicalChunkData := buffer\<rparr>"
      "r' = r\<lparr>rtrace := rtrace r @ [OsOpen (localPath chunk)]\<rparr>"
  | (read_failed_download) osFile bytes e where "localPath chunk \<noteq> []" "download"
      "osOpen io (localPath chunk) = Inr osFile"
      "osReadAt io osFile (length_chunk chunk) (offset_chunk chunk) = (bytes, Some e)"
      "managedDownloadLogicalChunkData io (chunk\<lparr>logicalChunkData := []\<rparr>)
         (r\<lparr>rtrace := rtrace r @ [OsOpen (localPath chunk),
                  ReadAt osFile (length_chunk chunk) (offset_chunk chunk)]\<rparr>) = (r', chunk', res)"
  | (read_failed) osFile bytes e where "localPath chunk \<noteq> []" "\<not> download"
      "osOpen io (localPath chunk) = Inr osFile"
      "osReadAt io osFile (length_chunk chunk) (offset_chunk chunk) = (bytes, Some e)"
      "res = Some (Extend e ErrFailedRead)"
      "chunk' = chunk\<lparr>logicalChunkData := fill_buffer buffer bytes\<rparr>"
      "r' = r\<lparr>rtrace := rtrace r @ [OsOpen (localPath chunk),
                  ReadAt osFile (length_chunk chunk) (offset_chunk chunk)]\<rparr>"
  | (read_ok) osFile bytes where "localPath chunk \<noteq> []"
      "osOpen io (localPath chunk) = Inr osFile"
      "osReadAt io osFile (length_chunk chunk) (offset_chunk chunk) = (bytes, None)"
      "res = None"
      "chunk' = chunk\<lparr>logicalChunkData := fill_buffer buffer bytes\<rparr>"
      "r' = r\<lparr>rtrace := rtrace r @ [OsOpen (localPath chunk),
                  ReadAt osFile (length_chunk chunk) (offset_chunk chunk)]\<rparr>"
proof (cases "localPath chunk = []")
  case True
  show thesis
  proof (cases download)
    case True
    show thesis
      by (rule no_path_download[OF \<open>localPath chunk = []\<close> True])
        (use run True \<open>localPath chunk = []\<close> in \<open>simp add: managedFetchLogicalChunkData_def\<close>)
  next
    case False
    show thesis
      by (rule no_path[OF \<open>localPath chunk = []\<close> False])
        (use run False \<open>localPath chunk = []\<close> in \<open>simp_all add: managedFetchLogicalChunkData_def\<close>)
  qed
next
  case path: False
  show thesis
  proof (cases "osOpen io (localPath chunk)")
    case (Inl e)
    show thesis
    proof (cases download)
      case True
      show thesis
        by (rule open_failed_download[OF path True Inl])
          (use run path True Inl in
            \<open>simp add: managedFetchLogicalChunkData_def remit_def Let_def\<close>)
    next
      case False
      show thesis
        by (rule open_failed[OF path False Inl])
          (use run path False Inl in
            \<open>simp_all add: managedFetchLogicalChunkData_def remit_def Let_def buffer_def\<close>)
    qed
  next
    case (Inr osFile)
    obtain bytes err where rd:
      "osReadAt io osFile (length_chunk chunk) (offset_chunk chunk) = (bytes, err)"
      by (cases "osReadAt io osFile (length_chunk chunk) (offset_chunk chunk)")
    show thesis
    proof (cases err)
      case None
      show thesis
        by (rule read_ok[OF path Inr rd[unfolded None]])
          (use run path Inr rd None in
            \<open>simp_all add: managedFetchLogicalChunkData_def remit_def Let_def buffer_def\<close>)
    next
      case (Some e)
      show thesis
      proof (cases download)
        case True
        show thesis
          by (rule read_failed_download[OF path True Inr rd[unfolded Some]])
            (use run path True Inr rd Some in
              \<open>simp add: managedFetchLogicalChunkData_def remit_def Let_def\<close>)
      next
        case False
        show thesis
          by (rule read_failed[OF path False Inr rd[unfolded Some]])
            (use run path False Inr rd Some in
              \<open>simp_all add: managedFetchLogicalChunkData_def remit_def Let_def buffer_def\<close>)
      qed
    qed
  qed
qed

lemma fetch_frame:
  assumes "managedFetchLogicalChunkData io chunk download r = (r', chunk', res)"
  shows "memoryAvailable r' = memoryAvailable r
       \<and> pieceUsage chunk' = pieceUsage chunk
       \<and> rtrace r' = rtrace r @ revents_since r r'
       \<and> filter is_MemoryAvailableAdd (revents_since r r') = []
       \<and> filter is_QueueChunkRepair (revents_since r r') = []
       \<and> LogCritical \<notin> set (revents_since r r')
       \<and> (filter is_NewSectionDownload (revents_since r r') \<noteq> [] \<longrightarrow> download)"
  using assms
  by (cases rule: fetch_cases)
    (auto simp: revents_since_def dest!: download_frame)

lemma revents_since_append:
  assumes "rtrace r' = rtrace r @ evs"
  shows "revents_since r r' = evs"
  using assms by (simp add: revents_since_def)

lemma contains_err_refl: "contains_err e e"
  by (cases e) simp_all

lemma contains_err_Extend: "contains_err (Extend e x) e"
  by (simp add: contains_err_refl)

text \<open>C8. The download subsystem is called only when \<open>download\<close> is set. Without it,
  a chunk with no local path gives the error "file not available locally", a failed open
  gives the error of the open extended with "failed to open file locally", and a failed
  read gives the error of the read extended with "failed to read file locally": the cause
  is part of the error returned.\<close>

theorem fetch_local_only:
  assumes "managedFetchLogicalChunkData io chunk download r = (r', chunk', res)"
  shows "((\<exists>e \<in> set (revents_since r r'). is_NewSectionDownload e) \<longrightarrow> download)
       \<and> (\<not> download \<and> localPath chunk = [] \<longrightarrow> res = Some ErrNotAvailableLocally)
       \<and> (\<forall>e. \<not> download \<and> localPath chunk \<noteq> [] \<and> osOpen io (localPath chunk) = Inl e \<longrightarrow>
             res = Some (Extend e ErrFailedOpen) \<and> contains_err (Extend e ErrFailedOpen) e)
       \<and> (\<forall>osFile e. \<not> download \<and> localPath chunk \<noteq> []
               \<and> osOpen io (localPath chunk) = Inr osFile
               \<and> snd (osReadAt io osFile (length_chunk chunk) (offset_chunk chunk)) = Some e \<longrightarrow>
             res = Some (Extend e ErrFailedRead) \<and> contains_err (Extend e ErrFailedRead) e)"
proof -
  have "((\<exists>e \<in> set (revents_since r r'). is_NewSectionDownload e) \<longrightarrow> download)
       \<and> (\<not> download \<and> localPath chunk = [] \<longrightarrow> res = Some ErrNotAvailableLocally)
       \<and> (\<forall>e. \<not> download \<and> localPath chunk \<noteq> [] \<and> osOpen io (localPath chunk) = Inl e \<longrightarrow>
             res = Some (Extend e ErrFailedOpen))
       \<and> (\<forall>osFile e. \<not> download \<and> localPath chunk \<noteq> []
               \<and> osOpen io (localPath chunk) = Inr osFile
               \<and> snd (osReadAt io osFile (length_chunk chunk) (offset_chunk chunk)) = Some e \<longrightarrow>
             res = Some (Extend e ErrFailedRead))"
    using assms
    by (cases rule: fetch_cases) (auto simp: revents_since_def)
  then show ?thesis
    using contains_err_Extend by blast
qed


theorem fetch_local_only_witness:
  "managedFetchLogicalChunkData broken_disk_io example_chunk False example_renter =
     (example_renter\<lparr>rtrace := [OsOpen ''/data/file'']\<rparr>,
      example_chunk\<lparr>logicalChunkData := [0, 0, 0, 0]\<rparr>,
      Some (Extend (OsErr ''no such file'') ErrFailedOpen))
   \<and> contains_err (Extend (OsErr ''no such file'') ErrFailedOpen) (OsErr ''no such file'')
   \<and> filter is_NewSectionDownload
        (revents_since example_renter (example_renter\<lparr>rtrace := [OsOpen ''/data/file'']\<rparr>)) = []"
proof -
  have run: "managedFetchLogicalChunkData broken_disk_io example_chunk False example_renter =
     (example_renter\<lparr>rtrace := [OsOpen ''/data/file'']\<rparr>,
      example_chunk\<lparr>logicalChunkData := [0, 0, 0, 0]\<rparr>,
      Some (Extend (OsErr ''no such file'') ErrFailedOpen))"
    by (simp add: managedFetchLogicalChunkData_def remit_def Let_def renter_example_defs
        eval_nat_numeral)
  have path: "localPath example_chunk \<noteq> []"
    and opn: "osOpen broken_disk_io (localPath example_chunk) = Inl (OsErr ''no such file'')"
    by (simp_all add: renter_example_defs)
  from fetch_local_only[OF run] path opn
  have "contains_err (Extend (OsErr ''no such file'') ErrFailedOpen) (OsErr ''no such file'')"
    and "\<not> (\<exists>e \<in> set (revents_since example_renter
                (example_renter\<lparr>rtrace := [OsOpen ''/data/file'']\<rparr>)). is_NewSectionDownload e)"
    by blast+
  with run show ?thesis
    by (simp add: filter_empty_conv)
qed


subsection \<open>Repairing\<close>

lemma release_used_total:
  assumes "length usage \<le> length physical"
  shows "\<exists>physical' m'. release_used i usage physical m = Some (physical', m')
           \<and> length physical' = length physical"
  using assms
proof (induction i usage physical m rule: release_used.induct)
  case (1 i usage physical memoryFreed)
  show ?case
  proof (cases "i < length usage")
    case False
    then show ?thesis by (simp add: release_used.simps[of i])
  next
    case True
    then show ?thesis
      using 1 by (cases "usage ! i") (auto simp: release_used.simps[of i])
  qed
qed

lemma distribute_trace:
  "memoryAvailable (distribute pool chunk r) = memoryAvailable r
   \<and> rtrace (distribute pool chunk r) = rtrace r @ map (\<lambda>w. QueueChunkRepair w chunk) pool"
proof (induction pool arbitrary: r)
  case Nil
  show ?case by simp
next
  case (Cons worker pool)
  have "memoryAvailable (distribute pool chunk (remit (QueueChunkRepair worker chunk) r)) = memoryAvailable (remit (QueueChunkRepair worker chunk) r)"
    and "rtrace (distribute pool chunk (remit (QueueChunkRepair worker chunk) r)) = rtrace (remit (QueueChunkRepair worker chunk) r) @ map (\<lambda>w. QueueChunkRepair w chunk) pool"
    using Cons.IH by blast+
  then show ?case
    by (simp add: remit_def)
qed

lemma managedFetchAndRepairChunk_returns:
  "\<exists>r' chunk'. managedFetchAndRepairChunk io chunk r = Some (r', chunk')"
proof -
  obtain r1 chunk1 res where
    f: "managedFetchLogicalChunkData io chunk (repair_download chunk) r = (r1, chunk1, res)"
    by (cases "managedFetchLogicalChunkData io chunk (repair_download chunk) r")
  obtain pieces err where e: "erasureEncode io (logicalChunkData chunk1) = (pieces, err)"
    by (cases "erasureEncode io (logicalChunkData chunk1)")
  show ?thesis
  proof (cases res)
    case (Some x)
    then show ?thesis
      by (simp add: managedFetchAndRepairChunk_def repair_fetched_def f)
  next
    case None
    show ?thesis
    proof (cases err)
      case (Some x)
      then show ?thesis
        by (simp add: managedFetchAndRepairChunk_def repair_fetched_def f e None Let_def)
    next
      case ok: None
      show ?thesis
      proof (cases "length pieces < length (pieceUsage chunk1)")
        case True
        then show ?thesis
          by (simp add: managedFetchAndRepairChunk_def repair_fetched_def f e None ok Let_def)
      next
        case False
        then have "length (pieceUsage chunk1) \<le> length pieces" by simp
        from release_used_total[OF this, of 0 "length (logicalChunkData chunk1)"]
        obtain physical' m' where
          "release_used 0 (pieceUsage chunk1) pieces (length (logicalChunkData chunk1)) =
             Some (physical', m')"
          by blast
        then show ?thesis
          using False
          by (simp add: managedFetchAndRepairChunk_def repair_fetched_def f e None ok Let_def)
      qed
    qed
  qed
qed

lemma repair_fetched_no_download:
  assumes "repair_fetched io (r1, chunk1, res) = Some (r', chunk')"
  shows "\<exists>evs. rtrace r' = rtrace r1 @ evs \<and> filter is_NewSectionDownload evs = []"
proof -
  obtain pieces err where e: "erasureEncode io (logicalChunkData chunk1) = (pieces, err)"
    by (cases "erasureEncode io (logicalChunkData chunk1)")
  show ?thesis
  proof (cases res)
    case (Some x)
    with assms show ?thesis
      by (auto simp: repair_fetched_def remit_def)
  next
    case None
    show ?thesis
    proof (cases err)
      case (Some x)
      with assms None e show ?thesis
        by (auto simp: repair_fetched_def remit_def Let_def)
    next
      case ok: None
      show ?thesis
      proof (cases "length pieces < length (pieceUsage chunk1)")
        case True
        with assms None e ok show ?thesis
          by (auto simp: repair_fetched_def remit_def Let_def)
      next
        case False
        with assms None e ok show ?thesis
          by (auto simp: repair_fetched_def remit_def Let_def
                managedMemoryAvailableAdd_def distribute_trace filter_empty_conv
              split: option.splits)
      qed
    qed
  qed
qed

text \<open>Where nothing overflows, Go's arithmetic on the piece counts is that of the
  integers.\<close>

lemma sint_word_of_int_in_range:
  fixes k :: int
  assumes "- (2 ^ 63) \<le> k" and "k < 2 ^ 63"
  shows "sint (word_of_int k :: go_int) = k"
proof -
  have "signed_take_bit 63 k = k"
    using assms by (intro signed_take_bit_int_eq_self) simp_all
  then show ?thesis
    by (simp add: sint_sbintrunc')
qed

lemma go_threshold_in_range:
  fixes pn mp pc :: go_int
  assumes "0 \<le> sint mp" and "sint mp \<le> sint pn"
    and "sint pc + (sint pn - sint mp) div 4 < 2 ^ 63"
  shows "go_less (pc + go_div (pn - mp) 4) pn \<longleftrightarrow>
           sint pc + (sint pn - sint mp) div 4 < sint pn"
proof -
  have lo: "- (2 ^ 63) \<le> sint pc" and hi: "sint pn < 2 ^ 63"
    using sint_ge[of pc] sint_lt[of pn] by simp_all
  have d: "sint (pn - mp) = sint pn - sint mp"
    using assms hi by (simp add: sint_word_ariths signed_take_bit_int_eq_self)
  have q: "trunc_quot (sint pn - sint mp) 4 = (sint pn - sint mp) div 4"
    using assms by (simp add: trunc_quot_def sgn_if)
  have qr: "0 \<le> (sint pn - sint mp) div 4" "(sint pn - sint mp) div 4 < 2 ^ 63"
    using assms hi by simp_all
  have m: "sint (go_div (pn - mp) 4) = (sint pn - sint mp) div 4"
    unfolding go_div_def d using q qr by (simp add: sint_word_of_int_in_range)
  have s: "sint (pc + go_div (pn - mp) 4) = sint pc + (sint pn - sint mp) div 4"
    using assms(3) lo qr m by (simp add: sint_word_ariths signed_take_bit_int_eq_self)
  show ?thesis
    by (simp add: go_less_def s)
qed

text \<open>At the largest \<open>int\<close> the sum of line 78 wraps around to the least one, which is
  below every count: the download is allowed.\<close>

lemma repair_download_wraps:
  "repair_download
     (chunk\<lparr>piecesNeeded := 10, minimumPieces := 6, piecesCompleted := 9223372036854775807\<rparr>)"
  by (simp add: repair_download_def go_div_def go_less_def trunc_quot_def)

text \<open>C7. \<open>managedFetchAndRepairChunk\<close> hands to the fetch the flag
  \<open>piecesCompleted + (piecesNeeded - minimumPieces) / 4 < piecesNeeded\<close>, for every chunk,
  the sum, the difference, the quotient and the comparison being Go's on \<open>int\<close> (64 bits,
  wrapping, the quotient truncated); a run in which the download subsystem was called had
  the flag set. For a chunk with \<open>0 \<le> minimumPieces \<le> piecesNeeded\<close> whose sum fits in
  64 bits, the flag is that inequality between the integers, with the integer quotient.
  With ten pieces needed and six the minimum, nine completed pieces give a local read only
  and seven allow the download.\<close>

theorem repair_download_threshold:
  "managedFetchAndRepairChunk io chunk r =
     repair_fetched io
       (managedFetchLogicalChunkData io chunk
          (go_less
             (piecesCompleted chunk + go_div (piecesNeeded chunk - minimumPieces chunk) 4)
             (piecesNeeded chunk)) r)
   \<and> (\<forall>r' chunk'. managedFetchAndRepairChunk io chunk r = Some (r', chunk')
         \<and> filter is_NewSectionDownload (revents_since r r') \<noteq> [] \<longrightarrow>
         go_less
           (piecesCompleted chunk + go_div (piecesNeeded chunk - minimumPieces chunk) 4)
           (piecesNeeded chunk))
   \<and> (0 \<le> sint (minimumPieces chunk) \<and> sint (minimumPieces chunk) \<le> sint (piecesNeeded chunk)
        \<and> sint (piecesCompleted chunk)
            + (sint (piecesNeeded chunk) - sint (minimumPieces chunk)) div 4 < 2 ^ 63 \<longrightarrow>
        (go_less
           (piecesCompleted chunk + go_div (piecesNeeded chunk - minimumPieces chunk) 4)
           (piecesNeeded chunk)
         \<longleftrightarrow> sint (piecesCompleted chunk)
               + (sint (piecesNeeded chunk) - sint (minimumPieces chunk)) div 4
             < sint (piecesNeeded chunk)))
   \<and> \<not> repair_download
          (chunk\<lparr>piecesNeeded := 10, minimumPieces := 6, piecesCompleted := 9\<rparr>)
   \<and> repair_download
          (chunk\<lparr>piecesNeeded := 10, minimumPieces := 6, piecesCompleted := 7\<rparr>)"
proof -
  let ?flag = "go_less
             (piecesCompleted chunk + go_div (piecesNeeded chunk - minimumPieces chunk) 4)
             (piecesNeeded chunk)"
  have flag: "repair_download chunk = ?flag"
    by (simp add: repair_download_def)
  have passes: "managedFetchAndRepairChunk io chunk r =
     repair_fetched io (managedFetchLogicalChunkData io chunk ?flag r)"
    by (simp add: managedFetchAndRepairChunk_def flag)
  have local: "?flag"
    if run: "managedFetchAndRepairChunk io chunk r = Some (r', chunk')"
      and net: "filter is_NewSectionDownload (revents_since r r') \<noteq> []" for r' chunk'
  proof -
    obtain r1 chunk1 res where
      f: "managedFetchLogicalChunkData io chunk ?flag r = (r1, chunk1, res)"
      by (cases "managedFetchLogicalChunkData io chunk ?flag r")
    from fetch_frame[OF f] have
      tr: "rtrace r1 = rtrace r @ revents_since r r1"
      and dl: "filter is_NewSectionDownload (revents_since r r1) \<noteq> [] \<longrightarrow> ?flag"
      by simp_all
    from run have rf: "repair_fetched io (r1, chunk1, res) = Some (r', chunk')"
      by (simp add: passes f)
    from repair_fetched_no_download[OF rf] obtain evs where
      evs: "rtrace r' = rtrace r1 @ evs" "filter is_NewSectionDownload evs = []"
      by blast
    have "rtrace r' = rtrace r @ (revents_since r r1 @ evs)"
      by (subst append_assoc[symmetric], subst tr[symmetric]) (rule evs(1))
    then have "revents_since r r' = revents_since r r1 @ evs"
      by (rule revents_since_append)
    with net evs(2) dl show ?thesis
      by simp
  qed
  have in_range: "0 \<le> sint (minimumPieces chunk)
        \<and> sint (minimumPieces chunk) \<le> sint (piecesNeeded chunk)
        \<and> sint (piecesCompleted chunk)
            + (sint (piecesNeeded chunk) - sint (minimumPieces chunk)) div 4 < 2 ^ 63 \<longrightarrow>
        (?flag \<longleftrightarrow> sint (piecesCompleted chunk)
               + (sint (piecesNeeded chunk) - sint (minimumPieces chunk)) div 4
             < sint (piecesNeeded chunk))"
    using go_threshold_in_range by blast
  have scenario_A: "\<not> repair_download
          (chunk\<lparr>piecesNeeded := 10, minimumPieces := 6, piecesCompleted := 9\<rparr>)"
    and scenario_B: "repair_download
          (chunk\<lparr>piecesNeeded := 10, minimumPieces := 6, piecesCompleted := 7\<rparr>)"
    by (simp_all add: repair_download_def go_div_def go_less_def trunc_quot_def)
  from passes local in_range scenario_A scenario_B show ?thesis
    by blast
qed

theorem repair_download_threshold_witness:
  "managedFetchAndRepairChunk broken_disk_io example_chunk example_renter =
     Some (example_renter
             \<lparr>rtrace := [OsOpen ''/data/file'',
                         LogDebug (Extend (OsErr ''no such file'') ErrFailedOpen)]\<rparr>,
           example_chunk\<lparr>logicalChunkData := [0, 0, 0, 0]\<rparr>)
   \<and> go_div (piecesNeeded example_chunk - minimumPieces example_chunk) 4 = 1
   \<and> sint (piecesCompleted example_chunk)
        + (sint (piecesNeeded example_chunk) - sint (minimumPieces example_chunk)) div 4 = 10
   \<and> map_option (rtrace \<circ> fst)
        (managedFetchAndRepairChunk broken_disk_io (example_chunk\<lparr>piecesCompleted := 7\<rparr>)
           example_renter) =
       Some [OsOpen ''/data/file'', NewSectionDownload 0 4, Encode [9, 9, 9, 9], LogCritical]"
  using repair_download_threshold [of broken_disk_io example_chunk example_renter]
    repair_download_threshold
      [of broken_disk_io "example_chunk\<lparr>piecesCompleted := 7\<rparr>" example_renter]
  by (simp add: repair_defs renter_example_defs)

text \<open>C10. When the fetch and the erasure coding succeed and the coder returns fewer
  pieces than there are piece-usage flags, the function returns (it does not panic) with
  the logical buffer released, after the critical log entry; the memory accountant is as
  before and was not called, and no worker got the chunk.\<close>

theorem repair_shard_count_fault_credits_nothing:
  assumes fetch: "managedFetchLogicalChunkData io chunk (repair_download chunk) r = (r1, chunk1, None)"
    and enc: "erasureEncode io (logicalChunkData chunk1) = (pieces, None)"
    and few: "length pieces < length (pieceUsage chunk)"
  shows "\<exists>r' chunk'. managedFetchAndRepairChunk io chunk r = Some (r', chunk')
           \<and> logicalChunkData chunk' = []
           \<and> memoryAvailable r' = memoryAvailable r
           \<and> filter is_MemoryAvailableAdd (revents_since r r') = []
           \<and> filter is_QueueChunkRepair (revents_since r r') = []
           \<and> LogCritical \<in> set (revents_since r r')"
proof -
  from fetch_frame[OF fetch] have
    fr: "memoryAvailable r1 = memoryAvailable r" "pieceUsage chunk1 = pieceUsage chunk"
      "rtrace r1 = rtrace r @ revents_since r r1"
      "filter is_MemoryAvailableAdd (revents_since r r1) = []"
      "filter is_QueueChunkRepair (revents_since r r1) = []"
    by simp_all
  let ?r' = "remit LogCritical (remit (Encode (logicalChunkData chunk1)) r1)"
  have run: "managedFetchAndRepairChunk io chunk r =
      Some (?r', chunk1\<lparr>physicalChunkData := pieces, logicalChunkData := []\<rparr>)"
    using fetch enc few fr(2)
    by (simp add: managedFetchAndRepairChunk_def repair_fetched_def Let_def)
  have "rtrace ?r' =
      rtrace r @ (revents_since r r1 @ [Encode (logicalChunkData chunk1), LogCritical])"
    by (subst append_assoc[symmetric], subst fr(3)[symmetric]) (simp add: remit_def)
  then have ev: "revents_since r ?r' =
      revents_since r r1 @ [Encode (logicalChunkData chunk1), LogCritical]"
    by (rule revents_since_append)
  have mem: "memoryAvailable ?r' = memoryAvailable r"
    using fr(1) by (simp add: remit_def)
  show ?thesis
    using fr(4,5) mem by (simp add: run ev)
qed


theorem repair_shard_count_fault_credits_nothing_witness:
  "managedFetchAndRepairChunk disk_io example_chunk example_renter =
     Some (example_renter
             \<lparr>rtrace := [OsOpen ''/data/file'', ReadAt 5 4 0, Encode [1, 2, 3, 4],
                         LogCritical]\<rparr>,
           example_chunk\<lparr>physicalChunkData := [[1, 2, 3, 4]]\<rparr>)"
proof -
  have fetch: "managedFetchLogicalChunkData disk_io example_chunk
      (repair_download example_chunk) example_renter =
      (example_renter\<lparr>rtrace := [OsOpen ''/data/file'', ReadAt 5 4 0]\<rparr>,
       example_chunk\<lparr>logicalChunkData := [1, 2, 3, 4]\<rparr>, None)"
    by (simp add: repair_defs renter_example_defs)
  have enc: "erasureEncode disk_io
      (logicalChunkData (example_chunk\<lparr>logicalChunkData := [1, 2, 3, 4]\<rparr>)) =
      ([[1, 2, 3, 4]], None)"
    by (simp add: disk_io_def)
  have few: "length [[1, 2, 3, 4 :: byte]] < length (pieceUsage example_chunk)"
    by (simp add: example_chunk_def)
  from repair_shard_count_fault_credits_nothing[OF fetch enc few]
  show ?thesis
    by (simp add: repair_defs renter_example_defs)
qed


end
